theory Spec2Isabelle
  imports Main "HOL-Library.Word"
begin

section \<open>JavaScript values used by the script\<close>

text \<open>
  The repository holds one script in two versions:
  \<^item> \<^verbatim>\<open>src/scripts/add-predeployment.ts\<close>: the RPC endpoint comes from the environment
    variable \<^verbatim>\<open>RPC\<close>, the registry check can be skipped with \<^verbatim>\<open>SKIP_CHAINLIST_CHECK\<close>, and
    failures are \<^verbatim>\<open>PredeploymentError\<close>s carrying an HTML-flavoured comment;
  \<^item> \<^verbatim>\<open>src/unnamed/part_000\<close>: the registry check is mandatory, the RPC endpoint is taken
    from the matched registry entry, and failures are plain \<^verbatim>\<open>Error\<close>s.
  Definitions of the second version carry the suffix \<open>_reg\<close>; what the two versions share
  word for word is defined once.

  Calls of \<^verbatim>\<open>console.log\<close> have no effect on the result of a run and are left out.

  Strings are \<open>char list\<close>s. The non-ASCII characters of the source's literals are written
  as their UTF-8 bytes. Numbers are JavaScript doubles in the source; every number the
  script handles is an integer, and the model uses \<open>int\<close>, which agrees with the double
  up to \<open>2^53 - 1\<close>. \<open>NaN\<close> is \<open>None\<close>.
\<close>

subsection \<open>Numbers and strings\<close>

definition digitChar :: "nat \<Rightarrow> char" where
  "digitChar d = ''0123456789'' ! (d mod 10)"

fun toStringNat :: "nat \<Rightarrow> string" where
  "toStringNat n =
     (if n < 10 then [digitChar n] else toStringNat (n div 10) @ [digitChar (n mod 10)])"

declare toStringNat.simps [simp del]

text \<open>The template literal \<^verbatim>\<open>`${n}`\<close> of an integer number.\<close>

definition toString :: "int \<Rightarrow> string" where
  "toString n = (if n < 0 then CHR ''-'' # toStringNat (nat (- n)) else toStringNat (nat n))"

text \<open>
  \<^verbatim>\<open>parseInt(s, 10)\<close> (ECMAScript 19.2.5): leading white space is skipped, one sign is
  read, then the longest prefix of decimal digits; without a digit the result is \<open>NaN\<close>.
  What follows the digits is ignored. White space is the ASCII white space here; the
  other Unicode space characters that JavaScript skips are not modelled.
\<close>

definition isWhiteSpace :: "char \<Rightarrow> bool" where
  "isWhiteSpace c = (c \<in> set [CHR 0x09, CHR 0x0A, CHR 0x0B, CHR 0x0C, CHR 0x0D, CHR 0x20])"

definition isDigit :: "char \<Rightarrow> bool" where
  "isDigit c = (c \<in> set ''0123456789'')"

definition digitValue :: "char \<Rightarrow> nat" where
  "digitValue c = of_char c - 48"

definition mathInt :: "string \<Rightarrow> nat" where
  "mathInt Z = foldl (\<lambda>a c. 10 * a + digitValue c) 0 Z"

definition parseInt :: "string \<Rightarrow> int option" where
  "parseInt inputString =
     (let S = dropWhile isWhiteSpace inputString;
          sign = (case S of [] \<Rightarrow> 1 | c # _ \<Rightarrow> if c = CHR ''-'' then - 1 else (1::int));
          S' = (case S of [] \<Rightarrow> S | c # r \<Rightarrow> if c = CHR ''+'' \<or> c = CHR ''-'' then r else S);
          Z = takeWhile isDigit S'
      in if Z = [] then None else Some (sign * int (mathInt Z)))"

text \<open>\<^verbatim>\<open>s.startsWith(p)\<close> and \<^verbatim>\<open>s.includes(p)\<close>.\<close>

definition startsWith :: "string \<Rightarrow> string \<Rightarrow> bool" where
  "startsWith s p = (take (length p) s = p)"


text \<open>
  A value of type \<^verbatim>\<open>string | undefined\<close> in a condition: \<^verbatim>\<open>undefined\<close> and the empty string
  are falsy. In a template literal \<^verbatim>\<open>undefined\<close> prints as its name.
\<close>

definition truthy :: "string option \<Rightarrow> bool" where
  "truthy v = (case v of None \<Rightarrow> False | Some s \<Rightarrow> s \<noteq> [])"

definition template :: "string option \<Rightarrow> string" where
  "template v = (case v of None \<Rightarrow> ''undefined'' | Some s \<Rightarrow> s)"

subsection \<open>\<^verbatim>\<open>JSON.stringify\<close> of a flat object\<close>

datatype jsvalue = JNumber int | JString string | JBoolean bool

definition hexDigit :: "nat \<Rightarrow> char" where
  "hexDigit d = ''0123456789abcdef'' ! (d mod 16)"

definition quoteChar :: "char \<Rightarrow> string" where
  "quoteChar c =
     (if c = CHR 0x08 then [CHR 0x5C, CHR ''b'']
      else if c = CHR 0x09 then [CHR 0x5C, CHR ''t'']
      else if c = CHR 0x0A then [CHR 0x5C, CHR ''n'']
      else if c = CHR 0x0C then [CHR 0x5C, CHR ''f'']
      else if c = CHR 0x0D then [CHR 0x5C, CHR ''r'']
      else if c = CHR 0x22 then [CHR 0x5C, CHR 0x22]
      else if c = CHR 0x5C then [CHR 0x5C, CHR 0x5C]
      else if (of_char c :: nat) < 32
        then [CHR 0x5C, CHR ''u'', CHR ''0'', CHR ''0'',
              hexDigit (of_char c div 16), hexDigit (of_char c)]
      else [c])"

definition quoteJSONString :: "string \<Rightarrow> string" where
  "quoteJSONString s = CHR 0x22 # concat (map quoteChar s) @ [CHR 0x22]"

definition serializeValue :: "jsvalue \<Rightarrow> string" where
  "serializeValue v =
     (case v of
        JNumber n \<Rightarrow> toString n
      | JString s \<Rightarrow> quoteJSONString s
      | JBoolean b \<Rightarrow> if b then ''true'' else ''false'')"

fun joinWith :: "string \<Rightarrow> string list \<Rightarrow> string" where
  "joinWith sep [] = []"
| "joinWith sep [x] = x"
| "joinWith sep (x # y # ys) = x @ sep @ joinWith sep (y # ys)"

text \<open>
  \<^verbatim>\<open>JSON.stringify(obj, null, gap)\<close> for an object whose properties are numbers, strings
  and booleans: one property per line, indented by \<open>gap\<close>.
\<close>

definition stringify :: "(string \<times> jsvalue) list \<Rightarrow> string \<Rightarrow> string" where
  "stringify obj gap =
     (if obj = [] then ''{}''
      else ''{'' @ [CHR 0x0A]
        @ joinWith ('','' @ [CHR 0x0A])
            (map (\<lambda>(key, v). gap @ quoteJSONString key @ '': '' @ serializeValue v) obj)
        @ [CHR 0x0A] @ ''}'')"

section \<open>The environment of a run\<close>

text \<open>\<^verbatim>\<open>process.env\<close>, after \<^verbatim>\<open>dotenv.config()\<close>.\<close>

record env =
  CHAIN_ID :: "string option"
  RPC :: "string option"
  SKIP_CHAINLIST_CHECK :: "string option"
  SUMMARY_FILE :: "string option"

text \<open>
  Thrown values. \<open>PredeploymentError message comment\<close> is the class of the first version;
  \<open>Error name message\<close> is any other error object: \<^verbatim>\<open>new Error(m)\<close> is \<open>Error ''Error'' m\<close>,
  and the errors of \<^verbatim>\<open>fetch\<close>, of the RPC provider and of \<^verbatim>\<open>fs\<close> are of this shape too.
\<close>

datatype exn = PredeploymentError string string | Error string string

definition newError :: "string \<Rightarrow> exn" where
  "newError m = Error ''Error'' m"

fun message :: "exn \<Rightarrow> string" where
  "message (PredeploymentError m c) = m"
| "message (Error n m) = m"

text \<open>\<^verbatim>\<open>`${error}`\<close>: \<^verbatim>\<open>Error.prototype.toString\<close>.\<close>

fun errorToString :: "exn \<Rightarrow> string" where
  "errorToString (PredeploymentError m c) =
     (if m = [] then ''PredeploymentError'' else ''PredeploymentError: '' @ m)"
| "errorToString (Error n m) =
     (if n = [] then m else if m = [] then n else n @ '': '' @ m)"

text \<open>
  A registry entry, typed as the source declares it (\<^verbatim>\<open>ChainData\<close>; the first version
  declares the \<^verbatim>\<open>chainId\<close> field only and never reads \<^verbatim>\<open>rpc\<close>).
\<close>

record ChainData =
  chainId :: int
  rpc :: "string list option"

type_synonym Chainlist = "ChainData list"

text \<open>
  The HTTP response of the registry. \<^verbatim>\<open>response.ok\<close> is true for a status from 200 to 299
  (Fetch standard); \<^verbatim>\<open>response.text()\<close> and \<^verbatim>\<open>response.json()\<close> resolve or reject.
\<close>

record response =
  status :: nat
  body :: "exn + string"
  json :: "exn + Chainlist"

definition ok :: "response \<Rightarrow> bool" where
  "ok r = (200 \<le> status r \<and> status r \<le> 299)"

text \<open>
  What the outside answers during one run: every awaited call and every file-system
  call either throws or returns.
  \<^item> \<open>fetch\<close>: \<^verbatim>\<open>fetch("https://chainlist.org/rpcs.json")\<close>;
  \<^item> \<open>getNetwork url\<close>: the \<^verbatim>\<open>chainId\<close> of \<^verbatim>\<open>provider.getNetwork()\<close> for the provider of \<open>url\<close>;
  \<^item> \<open>getCode url address\<close>: \<^verbatim>\<open>provider.getCode(address)\<close>, the bytes of the hex data;
  \<^item> \<open>mkdirError path\<close>, \<open>writeError path\<close>: the error \<^verbatim>\<open>fs.mkdirSync\<close> and
    \<^verbatim>\<open>fs.writeFileSync\<close> throw at \<open>path\<close>, if any (permissions, a missing or non-directory
    parent, a full disk).
\<close>

record world =
  fetch :: "exn + response"
  getNetwork :: "string \<Rightarrow> exn + int"
  getCode :: "string \<Rightarrow> string \<Rightarrow> exn + 8 word list"
  mkdirError :: "string \<Rightarrow> exn option"
  writeError :: "string \<Rightarrow> exn option"

text \<open>
  What the script imports and does not define: \<^verbatim>\<open>ADDRESS\<close> and \<^verbatim>\<open>CODEHASH\<close> of
  \<^verbatim>\<open>./constants\<close>, \<^verbatim>\<open>ethers.utils.keccak256\<close>, and the directory
  \<^verbatim>\<open>path.join(__dirname, "..", "artifacts")\<close>. They are parameters of the model.
\<close>

record setting =
  ADDRESS :: string
  CODEHASH :: string
  keccak256 :: "8 word list \<Rightarrow> string"
  artifacts :: string

subsection \<open>The file system\<close>

record fs =
  files :: "string \<rightharpoonup> string"
  dirs :: "string set"

definition existsSync :: "fs \<Rightarrow> string \<Rightarrow> bool" where
  "existsSync f p = (files f p \<noteq> None \<or> p \<in> dirs f)"

text \<open>The directory itself and the directories above it, for \<^verbatim>\<open>{ recursive: true }\<close>.\<close>

fun dirChain :: "string \<Rightarrow> string \<Rightarrow> string list" where
  "dirChain acc [] = [rev acc]"
| "dirChain acc (c # cs) =
     (if c = CHR ''/'' \<and> acc \<noteq> [] then [rev acc] else []) @ dirChain (c # acc) cs"

definition mkdirSync :: "world \<Rightarrow> string \<Rightarrow> fs \<Rightarrow> (exn + unit) \<times> fs" where
  "mkdirSync w p f =
     (case mkdirError w p of
        Some e \<Rightarrow> (Inl e, f)
      | None \<Rightarrow> (Inr (), f\<lparr>dirs := dirs f \<union> set (dirChain [] p)\<rparr>))"

definition writeFileSync :: "world \<Rightarrow> string \<Rightarrow> string \<Rightarrow> fs \<Rightarrow> (exn + unit) \<times> fs" where
  "writeFileSync w p d f =
     (case writeError w p of
        Some e \<Rightarrow> (Inl e, f)
      | None \<Rightarrow> (Inr (), f\<lparr>files := (files f)(p \<mapsto> d)\<rparr>))"

section \<open>\<^verbatim>\<open>src/scripts/add-predeployment.ts\<close>\<close>

subsection \<open>The class \<^verbatim>\<open>PredeploymentError\<close> (lines 151 to 218)\<close>

definition errorHeading :: string where
  "errorHeading =
     ''**'' @ [CHR 0xE2, CHR 0x9B, CHR 0x94, CHR 0xEF, CHR 0xB8, CHR 0x8F] @ '' Error:**<br>''"

definition successHeading :: string where
  "successHeading = ''**'' @ [CHR 0xE2, CHR 0x9C, CHR 0x85] @ '' Success:**<br>''"

definition chainIdNotProvided :: exn where
  "chainIdNotProvided =
     PredeploymentError ''Chain ID not provided''
       (errorHeading @ ''Chain ID not provided. Please set the CHAIN_ID environment variable.'')"

definition invalidChainId :: "string \<Rightarrow> exn" where
  "invalidChainId v =
     PredeploymentError ''Invalid chain ID''
       (errorHeading @ ''Invalid chain ID: '' @ [CHR 0x22] @ v @ [CHR 0x22]
          @ ''. Chain ID must be a positive integer.'')"

definition artifactAlreadyExists :: "int \<Rightarrow> exn" where
  "artifactAlreadyExists n =
     PredeploymentError ''Artifact already exists''
       (errorHeading @ ''Artifact already exists for chain ID '' @ toString n @ ''.'')"

definition chainNotListed :: "int \<Rightarrow> exn" where
  "chainNotListed n =
     PredeploymentError ''Chain not listed''
       (errorHeading @ ''Chain '' @ toString n @ '' is not listed in the chainlist.<br>''
          @ ''For more information on how to add a chain, please refer to the ''
          @ ''[chainlist documentation]''
          @ ''(https://github.com/DefiLlama/chainlist?tab=readme-ov-file#add-a-chain).<br>''
          @ ''Set SKIP_CHAINLIST_CHECK=true to bypass this check.'')"

definition chainIdMismatch :: "int \<Rightarrow> int \<Rightarrow> exn" where
  "chainIdMismatch expected actual =
     PredeploymentError ''Chain ID mismatch''
       (errorHeading @ ''Chain ID mismatch. Expected '' @ toString expected
          @ '', but RPC returned '' @ toString actual @ ''.'')"

definition factoryNotDeployed :: "setting \<Rightarrow> exn" where
  "factoryNotDeployed k =
     PredeploymentError ''Factory not deployed''
       (errorHeading @ ''The Safe Singleton Factory is not deployed at '' @ ADDRESS k
          @ ''.<br>'' @ ''This chain may not have the factory pre-installed.'')"

definition factoryDifferentBytecode :: "setting \<Rightarrow> exn" where
  "factoryDifferentBytecode k =
     PredeploymentError ''Factory different bytecode''
       (errorHeading @ ''The contract at '' @ ADDRESS k
          @ '' has different bytecode than expected.<br>''
          @ ''This may not be the Safe Singleton Factory.'')"

subsection \<open>\<^verbatim>\<open>PREDEPLOYMENT_ARTIFACT\<close> (lines 14 to 20) and the artifact's place\<close>

definition PREDEPLOYMENT_ARTIFACT :: "setting \<Rightarrow> (string \<times> jsvalue) list" where
  "PREDEPLOYMENT_ARTIFACT k =
     [(''gasPrice'', JNumber 0),
      (''gasLimit'', JNumber 0),
      (''signerAddress'', JString ''0x0000000000000000000000000000000000000000''),
      (''transaction'', JString ''0x''),
      (''address'', JString (ADDRESS k))]"

text \<open>
  Lines 72 and 73. \<open>artifacts k\<close> is a normalised path and the number prints as digits,
  so \<^verbatim>\<open>path.join\<close> puts one separator between the segments.
\<close>

definition artifactDir :: "setting \<Rightarrow> int \<Rightarrow> string" where
  "artifactDir k n = artifacts k @ ''/'' @ toString n"

definition artifactPath :: "setting \<Rightarrow> int \<Rightarrow> string" where
  "artifactPath k n = artifactDir k n @ ''/'' @ ''deployment.json''"

subsection \<open>\<^verbatim>\<open>verifyPredeployment\<close> (lines 113 to 135)\<close>

text \<open>\<^verbatim>\<open>ethers.utils.hexDataLength\<close> of hex data is its number of bytes.\<close>

definition hexDataLength :: "8 word list \<Rightarrow> nat" where
  "hexDataLength code = length code"

definition verifyPredeployment :: "setting \<Rightarrow> world \<Rightarrow> string \<Rightarrow> int \<Rightarrow> exn + unit" where
  "verifyPredeployment k w rpcUrl expectedChainId =
     (case getNetwork w rpcUrl of
        Inl e \<Rightarrow> Inl e
      | Inr reported \<Rightarrow>
          if reported \<noteq> expectedChainId then Inl (chainIdMismatch expectedChainId reported)
          else
            (case getCode w rpcUrl (ADDRESS k) of
               Inl e \<Rightarrow> Inl e
             | Inr code \<Rightarrow>
                 if hexDataLength code = 0 then Inl (factoryNotDeployed k)
                 else if keccak256 k code \<noteq> CODEHASH k then Inl (factoryDifferentBytecode k)
                 else Inr ()))"

subsection \<open>\<^verbatim>\<open>fetchChainlist\<close> (lines 139 to 149; the same text in both versions)\<close>

text \<open>The body is read and logged to the console; the thrown message has the status only.\<close>

definition fetchChainlist :: "world \<Rightarrow> exn + Chainlist" where
  "fetchChainlist w =
     (case fetch w of
        Inl e \<Rightarrow> Inl e
      | Inr response \<Rightarrow>
          if \<not> ok response then
            (case body response of
               Inl e \<Rightarrow> Inl e
             | Inr b \<Rightarrow>
                 Inl (newError (''HTTP '' @ toString (int (status response))
                        @ '' error retrieving chain list.'')))
          else json response)"

subsection \<open>\<^verbatim>\<open>verifyAndAddPredeployment\<close> (lines 59 to 111)\<close>

text \<open>Lines 60 to 69: the chain identifier of the environment.\<close>

definition validateChainId :: "env \<Rightarrow> exn + int" where
  "validateChainId env =
     (case CHAIN_ID env of
        None \<Rightarrow> Inl chainIdNotProvided
      | Some chainIdStr \<Rightarrow>
          if chainIdStr = [] then Inl chainIdNotProvided
          else
            (case parseInt chainIdStr of
               None \<Rightarrow> Inl (invalidChainId chainIdStr)
             | Some n \<Rightarrow> if n \<le> 0 then Inl (invalidChainId chainIdStr) else Inr n))"

text \<open>Lines 105 to 108: \<^verbatim>\<open>JSON.stringify(PREDEPLOYMENT_ARTIFACT, null, "\t") + "\n"\<close>.\<close>

definition artifactText :: "setting \<Rightarrow> string" where
  "artifactText k = stringify (PREDEPLOYMENT_ARTIFACT k) [CHR 0x09] @ [CHR 0x0A]"

text \<open>Lines 100 to 108: the directory, then the file.\<close>

definition writeArtifact :: "setting \<Rightarrow> world \<Rightarrow> int \<Rightarrow> fs \<Rightarrow> (exn + unit) \<times> fs" where
  "writeArtifact k w n f =
     (case (if \<not> existsSync f (artifactDir k n) then mkdirSync w (artifactDir k n) f
            else (Inr (), f)) of
        (Inl e, f1) \<Rightarrow> (Inl e, f1)
      | (Inr u, f1) \<Rightarrow>
          writeFileSync w (artifactPath k n) (artifactText k) f1)"

text \<open>Lines 79 to 87: on-chain verification when \<^verbatim>\<open>RPC\<close> is set and not empty.\<close>

definition verifyWithEnvRpc :: "setting \<Rightarrow> env \<Rightarrow> world \<Rightarrow> int \<Rightarrow> exn + unit" where
  "verifyWithEnvRpc k env w n =
     (case RPC env of
        None \<Rightarrow> Inr ()
      | Some rpcUrl \<Rightarrow> if rpcUrl = [] then Inr () else verifyPredeployment k w rpcUrl n)"

text \<open>Lines 89 to 98: the registry check unless \<^verbatim>\<open>SKIP_CHAINLIST_CHECK\<close> is \<^verbatim>\<open>"true"\<close>.\<close>

definition checkChainlist :: "env \<Rightarrow> world \<Rightarrow> int \<Rightarrow> exn + unit" where
  "checkChainlist env w n =
     (let skipChainlistCheck = (SKIP_CHAINLIST_CHECK env = Some ''true'')
      in if \<not> skipChainlistCheck then
           (case fetchChainlist w of
              Inl e \<Rightarrow> Inl e
            | Inr chainlist \<Rightarrow>
                let onChainlist = list_ex (\<lambda>item. chainId item = n) chainlist
                in if \<not> onChainlist then Inl (chainNotListed n) else Inr ())
         else Inr ())"

definition verifyAndAddPredeployment :: "setting \<Rightarrow> env \<Rightarrow> world \<Rightarrow> fs \<Rightarrow> (exn + unit) \<times> fs" where
  "verifyAndAddPredeployment k env w f =
     (case validateChainId env of
        Inl e \<Rightarrow> (Inl e, f)
      | Inr n \<Rightarrow>
          if existsSync f (artifactPath k n) then (Inl (artifactAlreadyExists n), f)
          else
            (case verifyWithEnvRpc k env w n of
               Inl e \<Rightarrow> (Inl e, f)
             | Inr u \<Rightarrow>
                 (case checkChainlist env w n of
                    Inl e \<Rightarrow> (Inl e, f)
                  | Inr u \<Rightarrow> writeArtifact k w n f)))"

subsection \<open>\<^verbatim>\<open>addPredeployment\<close> (lines 22 to 57)\<close>

record summary =
  commentOutput :: string
  success :: bool

text \<open>
  What a run leaves: the summary the \<^verbatim>\<open>finally\<close> block logged, the file system,
  \<^verbatim>\<open>process.exitCode\<close> (\<open>None\<close> while nothing assigned it) and, when the promise of
  \<^verbatim>\<open>addPredeployment\<close> rejects, the exception that left the function.
\<close>

record outcome =
  summary :: summary
  fsAfter :: fs
  exitCode :: "nat option"
  rejected :: "exn option"

text \<open>
  The \<^verbatim>\<open>finally\<close> block (lines 47 to 56): the summary file is written when
  \<^verbatim>\<open>SUMMARY_FILE\<close> is set and not empty, then the exit code is set. \<open>key\<close> is the name of the
  summary's text property, \<^verbatim>\<open>commentOutput\<close> here and \<^verbatim>\<open>message\<close> in the other version.
\<close>

definition finallyBlock :: "string \<Rightarrow> env \<Rightarrow> world \<Rightarrow> summary \<Rightarrow> fs \<Rightarrow> outcome" where
  "finallyBlock key env w s f =
     (case (case SUMMARY_FILE env of
              None \<Rightarrow> (Inr (), f)
            | Some summaryFile \<Rightarrow>
                if summaryFile = [] then (Inr (), f)
                else writeFileSync w summaryFile
                       (stringify [(key, JString (commentOutput s)), (''success'', JBoolean (success s))]
                          ''  '') f) of
        (Inl e, f1) \<Rightarrow> \<lparr>summary = s, fsAfter = f1, exitCode = None, rejected = Some e\<rparr>
      | (Inr u, f1) \<Rightarrow>
          \<lparr>summary = s, fsAfter = f1,
           exitCode = (if \<not> success s then Some 1 else None), rejected = None\<rparr>)"

definition addPredeployment :: "setting \<Rightarrow> env \<Rightarrow> world \<Rightarrow> fs \<Rightarrow> outcome" where
  "addPredeployment k env w f =
     (case verifyAndAddPredeployment k env w f of
        (Inr u, f1) \<Rightarrow>
          finallyBlock ''commentOutput'' env w
            \<lparr>commentOutput = successHeading
               @ ''Pre-deployment artifact added for chain ID '' @ template (CHAIN_ID env)
               @ ''.<br>'' @ ''The Safe Singleton Factory is pre-installed on this network.'',
             success = True\<rparr> f1
      | (Inl error, f1) \<Rightarrow>
          finallyBlock ''commentOutput'' env w
            \<lparr>commentOutput =
               (case error of
                  PredeploymentError m c \<Rightarrow> c
                | Error n m \<Rightarrow>
                    errorHeading @ ''Unexpected error adding pre-deployment.<br>Error Details: ''
                      @ errorToString error),
             success = False\<rparr> f1)"

section \<open>\<^verbatim>\<open>src/unnamed/part_000\<close>\<close>

text \<open>
  The second version of the script. Its summary has the property \<^verbatim>\<open>message\<close> where the
  first has \<^verbatim>\<open>commentOutput\<close>; the record \<open>summary\<close> serves both.
\<close>

subsection \<open>\<^verbatim>\<open>getRpcFromChainData\<close> (lines 162 to 175)\<close>

fun firstHttpRpc :: "string list \<Rightarrow> string option" where
  "firstHttpRpc [] = None"
| "firstHttpRpc (url # rest) =
     (if startsWith url ''http://'' \<or> startsWith url ''https://'' then Some url
      else firstHttpRpc rest)"

definition getRpcFromChainData :: "ChainData \<Rightarrow> string option" where
  "getRpcFromChainData chainData =
     (case rpc chainData of
        None \<Rightarrow> None
      | Some urls \<Rightarrow> if length urls = 0 then None else firstHttpRpc urls)"

subsection \<open>\<^verbatim>\<open>verifyPredeployment\<close> (lines 113 to 141)\<close>

definition chainIdMismatch_reg :: "int \<Rightarrow> int \<Rightarrow> exn" where
  "chainIdMismatch_reg expected actual =
     newError (''Chain ID mismatch. Expected '' @ toString expected
       @ '', but RPC returned '' @ toString actual @ ''.'')"

definition factoryNotDeployed_reg :: "setting \<Rightarrow> exn" where
  "factoryNotDeployed_reg k =
     newError (''The Safe Singleton Factory is not deployed at '' @ ADDRESS k
       @ ''. This chain may not have the factory pre-installed.'')"

definition factoryDifferentBytecode_reg :: "setting \<Rightarrow> exn" where
  "factoryDifferentBytecode_reg k =
     newError (''The contract at '' @ ADDRESS k
       @ '' has different bytecode than expected. This may not be the Safe Singleton Factory.'')"

definition verifyPredeployment_reg :: "setting \<Rightarrow> world \<Rightarrow> string \<Rightarrow> int \<Rightarrow> exn + unit" where
  "verifyPredeployment_reg k w rpcUrl expectedChainId =
     (case getNetwork w rpcUrl of
        Inl e \<Rightarrow> Inl e
      | Inr reported \<Rightarrow>
          if reported \<noteq> expectedChainId
          then Inl (chainIdMismatch_reg expectedChainId reported)
          else
            (case getCode w rpcUrl (ADDRESS k) of
               Inl e \<Rightarrow> Inl e
             | Inr code \<Rightarrow>
                 if hexDataLength code = 0 then Inl (factoryNotDeployed_reg k)
                 else if keccak256 k code \<noteq> CODEHASH k
                 then Inl (factoryDifferentBytecode_reg k)
                 else Inr ()))"

subsection \<open>\<^verbatim>\<open>verifyAndAddPredeployment\<close> (lines 55 to 111)\<close>

definition chainIdNotProvided_reg :: exn where
  "chainIdNotProvided_reg =
     newError ''Chain ID not provided. Please set the CHAIN_ID environment variable.''"

definition invalidChainId_reg :: "string \<Rightarrow> exn" where
  "invalidChainId_reg v =
     newError (''Invalid chain ID: '' @ [CHR 0x22] @ v @ [CHR 0x22]
       @ ''. Chain ID must be a positive integer.'')"

definition artifactAlreadyExists_reg :: "int \<Rightarrow> exn" where
  "artifactAlreadyExists_reg n =
     newError (''Artifact already exists for chain ID '' @ toString n @ ''.'')"

definition chainNotListed_reg :: "int \<Rightarrow> exn" where
  "chainNotListed_reg n =
     newError (''Chain '' @ toString n @ '' is not listed in the chainlist. ''
       @ ''For more information on how to add a chain, please refer to the chainlist ''
       @ ''documentation: https://github.com/DefiLlama/chainlist?tab=readme-ov-file#add-a-chain'')"

text \<open>Lines 56 to 69.\<close>

definition validateChainId_reg :: "env \<Rightarrow> exn + int" where
  "validateChainId_reg env =
     (case CHAIN_ID env of
        None \<Rightarrow> Inl chainIdNotProvided_reg
      | Some chainIdStr \<Rightarrow>
          if chainIdStr = [] then Inl chainIdNotProvided_reg
          else
            (case parseInt chainIdStr of
               None \<Rightarrow> Inl (invalidChainId_reg chainIdStr)
             | Some n \<Rightarrow> if n \<le> 0 then Inl (invalidChainId_reg chainIdStr) else Inr n))"

text \<open>Lines 79 to 87: the entry of the registry, the first whose \<^verbatim>\<open>chainId\<close> is the target.\<close>

definition findChainData :: "world \<Rightarrow> int \<Rightarrow> exn + ChainData" where
  "findChainData w n =
     (case fetchChainlist w of
        Inl e \<Rightarrow> Inl e
      | Inr chainlist \<Rightarrow>
          (case find (\<lambda>item. chainId item = n) chainlist of
             None \<Rightarrow> Inl (chainNotListed_reg n)
           | Some chainData \<Rightarrow> Inr chainData))"

text \<open>Lines 89 to 98: on-chain verification when the entry gives an endpoint.\<close>

definition verifyWithChainlistRpc :: "setting \<Rightarrow> world \<Rightarrow> ChainData \<Rightarrow> int \<Rightarrow> exn + unit" where
  "verifyWithChainlistRpc k w chainData n =
     (case getRpcFromChainData chainData of
        None \<Rightarrow> Inr ()
      | Some rpcUrl \<Rightarrow>
          if rpcUrl = [] then Inr () else verifyPredeployment_reg k w rpcUrl n)"

definition verifyAndAddPredeployment_reg ::
  "setting \<Rightarrow> env \<Rightarrow> world \<Rightarrow> fs \<Rightarrow> (exn + unit) \<times> fs" where
  "verifyAndAddPredeployment_reg k env w f =
     (case validateChainId_reg env of
        Inl e \<Rightarrow> (Inl e, f)
      | Inr n \<Rightarrow>
          if existsSync f (artifactPath k n) then (Inl (artifactAlreadyExists_reg n), f)
          else
            (case findChainData w n of
               Inl e \<Rightarrow> (Inl e, f)
             | Inr chainData \<Rightarrow>
                 (case verifyWithChainlistRpc k w chainData n of
                    Inl e \<Rightarrow> (Inl e, f)
                  | Inr u \<Rightarrow> writeArtifact k w n f)))"

subsection \<open>\<^verbatim>\<open>addPredeployment\<close> (lines 22 to 53)\<close>

text \<open>Every thrown value is an \<^verbatim>\<open>Error\<close> object, so the summary takes its message.\<close>

definition addPredeployment_reg :: "setting \<Rightarrow> env \<Rightarrow> world \<Rightarrow> fs \<Rightarrow> outcome" where
  "addPredeployment_reg k env w f =
     (case verifyAndAddPredeployment_reg k env w f of
        (Inr u, f1) \<Rightarrow>
          finallyBlock ''message'' env w
            \<lparr>commentOutput = ''Success: Pre-deployment artifact added for chain ID ''
               @ template (CHAIN_ID env)
               @ ''. The Safe Singleton Factory is pre-installed on this network.'',
             success = True\<rparr> f1
      | (Inl error, f1) \<Rightarrow>
          finallyBlock ''message'' env w \<lparr>commentOutput = message error, success = False\<rparr> f1)"

section \<open>The exit status of the process\<close>

text \<open>
  The script ends with \<^verbatim>\<open>runScript(addPredeployment)\<close>; \<^verbatim>\<open>runScript\<close> (\<^verbatim>\<open>./utils\<close>) is not
  among the sources. When the promise resolves, Node exits with \<^verbatim>\<open>process.exitCode\<close>, zero
  while nothing assigned it. When the promise rejects, the status is the caller's:
  \<open>onReject\<close> is a parameter.
\<close>

definition exitStatus :: "nat \<Rightarrow> outcome \<Rightarrow> nat" where
  "exitStatus onReject out =
     (case rejected out of
        Some e \<Rightarrow> onReject
      | None \<Rightarrow> (case exitCode out of None \<Rightarrow> 0 | Some c \<Rightarrow> c))"

section \<open>Concrete runs\<close>

text \<open>
  A setting, an environment, a registry and a file system to run the script on. The hash
  function of \<open>exampleSetting\<close> is a stand-in that tells one bytecode from all others.
\<close>

definition exampleSetting :: setting where
  "exampleSetting =
     \<lparr>ADDRESS = ''0x914d7Fec6aaC8cd542e72Bca78B30650d45643d7'',
      CODEHASH = ''0xc0de'',
      keccak256 = (\<lambda>code. if code = [0x60, 0x80] then ''0xc0de'' else ''0x0bad''),
      artifacts = ''/repo/artifacts''\<rparr>"

definition exampleEnv :: env where
  "exampleEnv =
     \<lparr>CHAIN_ID = Some ''5'', RPC = None, SKIP_CHAINLIST_CHECK = None, SUMMARY_FILE = None\<rparr>"

definition exampleChainlist :: Chainlist where
  "exampleChainlist =
     [\<lparr>chainId = 1, rpc = Some [''wss://one.example'', ''https://one.example'']\<rparr>,
      \<lparr>chainId = 5, rpc = None\<rparr>,
      \<lparr>chainId = 10, rpc = Some [''wss://ten.example/ws'', ''https://ten.example/rpc'']\<rparr>]"

definition exampleWorld :: world where
  "exampleWorld =
     \<lparr>fetch = Inr \<lparr>status = 200, body = Inr ''[]'', json = Inr exampleChainlist\<rparr>,
      getNetwork = (\<lambda>url. if url = ''https://ten.example/rpc'' then Inr 10
                          else Inl (Error ''Error'' ''could not detect network'')),
      getCode = (\<lambda>url address. Inr [0x60, 0x80]),
      mkdirError = (\<lambda>p. None),
      writeError = (\<lambda>p. None)\<rparr>"

definition emptyFs :: fs where
  "emptyFs = \<lparr>files = Map.empty, dirs = {''/repo'', ''/repo/artifacts''}\<rparr>"


definition noSuchDirectory :: exn where
  "noSuchDirectory = Error ''Error'' ''ENOENT: no such file or directory''"

text \<open>A summary file in a directory that does not exist: writing it throws.\<close>

definition summaryEnv :: env where
  "summaryEnv = exampleEnv\<lparr>SUMMARY_FILE := Some ''/nonexistent/summary.json''\<rparr>"

definition summaryFailsWorld :: world where
  "summaryFailsWorld =
     exampleWorld\<lparr>writeError :=
       (\<lambda>p. if p = ''/nonexistent/summary.json'' then Some noSuchDirectory else None)\<rparr>"




section \<open>The chain identifier\<close>










section \<open>The steps of the pipeline\<close>

lemma writeArtifact_result:
  "writeArtifact k w n f =
     (if \<not> existsSync f (artifactDir k n) \<and> mkdirError w (artifactDir k n) \<noteq> None
      then (Inl (the (mkdirError w (artifactDir k n))), f)
      else if writeError w (artifactPath k n) \<noteq> None
      then (Inl (the (writeError w (artifactPath k n))),
            if existsSync f (artifactDir k n) then f
            else f\<lparr>dirs := dirs f \<union> set (dirChain [] (artifactDir k n))\<rparr>)
      else (Inr (),
            (if existsSync f (artifactDir k n) then f
             else f\<lparr>dirs := dirs f \<union> set (dirChain [] (artifactDir k n))\<rparr>)
            \<lparr>files := (files f)(artifactPath k n \<mapsto> artifactText k)\<rparr>))"
  by (auto simp: writeArtifact_def mkdirSync_def writeFileSync_def split: option.splits)

lemma writeArtifact_ok_iff:
  "fst (writeArtifact k w n f) = Inr () \<longleftrightarrow>
     (existsSync f (artifactDir k n) \<or> mkdirError w (artifactDir k n) = None)
     \<and> writeError w (artifactPath k n) = None"
  by (auto simp: writeArtifact_result)

lemma writeArtifact_files:
  "files (snd (writeArtifact k w n f)) =
     (if fst (writeArtifact k w n f) = Inr ()
      then (files f)(artifactPath k n \<mapsto> artifactText k) else files f)"
  by (auto simp: writeArtifact_result)

lemma verifyPredeployment_ok_iff:
  "verifyPredeployment k w url n = Inr () \<longleftrightarrow>
     getNetwork w url = Inr n
     \<and> (\<exists>code. getCode w url (ADDRESS k) = Inr code \<and> code \<noteq> []
          \<and> keccak256 k code = CODEHASH k)"
  by (auto simp: verifyPredeployment_def hexDataLength_def split: sum.splits)

lemma verifyPredeployment_reg_ok_iff:
  "verifyPredeployment_reg k w url n = Inr () \<longleftrightarrow>
     getNetwork w url = Inr n
     \<and> (\<exists>code. getCode w url (ADDRESS k) = Inr code \<and> code \<noteq> []
          \<and> keccak256 k code = CODEHASH k)"
  by (auto simp: verifyPredeployment_reg_def hexDataLength_def split: sum.splits)

lemma verifyWithEnvRpc_ok_iff:
  "verifyWithEnvRpc k env w n = Inr () \<longleftrightarrow>
     (\<forall>url. RPC env = Some url \<and> url \<noteq> [] \<longrightarrow> verifyPredeployment k w url n = Inr ())"
  by (auto simp: verifyWithEnvRpc_def split: option.splits)

lemma checkChainlist_ok_iff:
  "checkChainlist env w n = Inr () \<longleftrightarrow>
     (SKIP_CHAINLIST_CHECK env \<noteq> Some ''true'' \<longrightarrow>
        (\<exists>cl. fetchChainlist w = Inr cl \<and> (\<exists>item \<in> set cl. chainId item = n)))"
  by (auto simp: checkChainlist_def Let_def list_ex_iff split: sum.splits)

lemma startsWith_nonempty: "startsWith url p \<Longrightarrow> p \<noteq> [] \<Longrightarrow> url \<noteq> []"
  by (auto simp: startsWith_def)

lemma firstHttpRpc_find:
  "firstHttpRpc urls =
     find (\<lambda>url. startsWith url ''http://'' \<or> startsWith url ''https://'') urls"
  by (induction urls) simp_all

lemma getRpcFromChainData_nonempty: "getRpcFromChainData cd = Some url \<Longrightarrow> url \<noteq> []"
  by (auto simp: getRpcFromChainData_def firstHttpRpc_find find_Some_iff
      dest: startsWith_nonempty split: option.splits if_splits)


lemma findChainData_ok_iff:
  "findChainData w n = Inr cd \<longleftrightarrow>
     (\<exists>cl. fetchChainlist w = Inr cl \<and> find (\<lambda>item. chainId item = n) cl = Some cd)"
  by (auto simp: findChainData_def split: sum.splits option.splits)

text \<open>The pipeline, step by step, once the chain identifier is known.\<close>

lemma verifyAndAddPredeployment_steps:
  assumes "validateChainId env = Inr n"
  shows "verifyAndAddPredeployment k env w f =
     (if existsSync f (artifactPath k n) then (Inl (artifactAlreadyExists n), f)
      else case verifyWithEnvRpc k env w n of
             Inl e \<Rightarrow> (Inl e, f)
           | Inr u \<Rightarrow>
               (case checkChainlist env w n of
                  Inl e \<Rightarrow> (Inl e, f)
                | Inr u \<Rightarrow> writeArtifact k w n f))"
  using assms by (simp add: verifyAndAddPredeployment_def)

lemma verifyAndAddPredeployment_reg_steps:
  assumes "validateChainId_reg env = Inr n"
  shows "verifyAndAddPredeployment_reg k env w f =
     (if existsSync f (artifactPath k n) then (Inl (artifactAlreadyExists_reg n), f)
      else case findChainData w n of
             Inl e \<Rightarrow> (Inl e, f)
           | Inr cd \<Rightarrow>
               (case verifyWithChainlistRpc k w cd n of
                  Inl e \<Rightarrow> (Inl e, f)
                | Inr u \<Rightarrow> writeArtifact k w n f))"
  using assms by (simp add: verifyAndAddPredeployment_reg_def)

lemma verifyAndAddPredeployment_ok_iff:
  "fst (verifyAndAddPredeployment k env w f) = Inr () \<longleftrightarrow>
     (\<exists>n. validateChainId env = Inr n \<and> \<not> existsSync f (artifactPath k n)
        \<and> verifyWithEnvRpc k env w n = Inr () \<and> checkChainlist env w n = Inr ()
        \<and> fst (writeArtifact k w n f) = Inr ())"
  by (auto simp: verifyAndAddPredeployment_def split: sum.splits)

lemma verifyAndAddPredeployment_reg_ok_iff:
  "fst (verifyAndAddPredeployment_reg k env w f) = Inr () \<longleftrightarrow>
     (\<exists>n cd. validateChainId_reg env = Inr n \<and> \<not> existsSync f (artifactPath k n)
        \<and> findChainData w n = Inr cd \<and> verifyWithChainlistRpc k w cd n = Inr ()
        \<and> fst (writeArtifact k w n f) = Inr ())"
  by (auto simp: verifyAndAddPredeployment_reg_def split: sum.splits)

lemma verifyAndAddPredeployment_files:
  "files (snd (verifyAndAddPredeployment k env w f)) =
     (case validateChainId env of
        Inl e \<Rightarrow> files f
      | Inr n \<Rightarrow>
          if fst (verifyAndAddPredeployment k env w f) = Inr ()
          then (files f)(artifactPath k n \<mapsto> artifactText k) else files f)"
  by (auto simp: verifyAndAddPredeployment_def writeArtifact_files split: sum.splits)


section \<open>The concrete runs, evaluated\<close>

lemma example_toString:
  "toString 5 = ''5''" "toString 7 = ''7''" "toString 10 = ''10''"
  by (simp_all add: toString_def toStringNat.simps digitChar_def)

lemma example_paths:
  "artifactDir exampleSetting 5 = ''/repo/artifacts/5''"
  "artifactPath exampleSetting 5 = ''/repo/artifacts/5/deployment.json''"
  "artifactDir exampleSetting 7 = ''/repo/artifacts/7''"
  "artifactPath exampleSetting 7 = ''/repo/artifacts/7/deployment.json''"
  "artifactDir exampleSetting 10 = ''/repo/artifacts/10''"
  "artifactPath exampleSetting 10 = ''/repo/artifacts/10/deployment.json''"
  by (simp_all add: artifactDir_def artifactPath_def exampleSetting_def example_toString)

lemma example_parseInt:
  "parseInt ''5'' = Some 5" "parseInt ''7'' = Some 7" "parseInt ''10'' = Some 10"
  by (simp_all add: parseInt_def isWhiteSpace_def isDigit_def mathInt_def digitValue_def)

lemma example_ids:
  "validateChainId exampleEnv = Inr 5"
  "validateChainId_reg exampleEnv = Inr 5"
  "validateChainId (exampleEnv\<lparr>CHAIN_ID := Some ''7''\<rparr>) = Inr 7"
  "validateChainId_reg (exampleEnv\<lparr>CHAIN_ID := Some ''7''\<rparr>) = Inr 7"
  "validateChainId (exampleEnv\<lparr>CHAIN_ID := Some ''10''\<rparr>) = Inr 10"
  "validateChainId_reg (exampleEnv\<lparr>CHAIN_ID := Some ''10''\<rparr>) = Inr 10"
  by (simp_all add: validateChainId_def validateChainId_reg_def exampleEnv_def example_parseInt)

lemma example_env:
  "CHAIN_ID exampleEnv = Some ''5''" "RPC exampleEnv = None"
  "SKIP_CHAINLIST_CHECK exampleEnv = None" "SUMMARY_FILE exampleEnv = None"
  by (simp_all add: exampleEnv_def)

lemma example_fetch: "fetchChainlist exampleWorld = Inr exampleChainlist"
  by (simp add: fetchChainlist_def exampleWorld_def ok_def)

lemma example_find:
  "find (\<lambda>item. chainId item = 5) exampleChainlist = Some \<lparr>chainId = 5, rpc = None\<rparr>"
  "find (\<lambda>item. chainId item = 10) exampleChainlist
     = Some \<lparr>chainId = 10, rpc = Some [''wss://ten.example/ws'', ''https://ten.example/rpc'']\<rparr>"
  "find (\<lambda>item. chainId item = 7) exampleChainlist = None"
  by (simp_all add: exampleChainlist_def)

lemma example_rpc:
  "getRpcFromChainData \<lparr>chainId = 5, rpc = None\<rparr> = None"
  "getRpcFromChainData
     \<lparr>chainId = 10, rpc = Some [''wss://ten.example/ws'', ''https://ten.example/rpc'']\<rparr>
     = Some ''https://ten.example/rpc''"
  by (simp_all add: getRpcFromChainData_def startsWith_def)

lemma example_fs:
  "\<not> existsSync emptyFs (artifactPath exampleSetting 5)"
  "\<not> existsSync emptyFs (artifactDir exampleSetting 5)"
  "\<not> existsSync emptyFs (artifactPath exampleSetting 7)"
  "\<not> existsSync emptyFs (artifactPath exampleSetting 10)"
  "\<not> existsSync emptyFs (artifactDir exampleSetting 10)"
  by (simp_all add: existsSync_def emptyFs_def example_paths)


lemma example_io: "mkdirError exampleWorld p = None" "writeError exampleWorld p = None"
  by (simp_all add: exampleWorld_def)

lemma example_listed: "checkChainlist exampleEnv exampleWorld 5 = Inr ()"
  by (simp add: checkChainlist_ok_iff example_fetch exampleChainlist_def)

lemma example_run:
  "fst (verifyAndAddPredeployment exampleSetting exampleEnv exampleWorld emptyFs) = Inr ()"
  "fst (verifyAndAddPredeployment_reg exampleSetting exampleEnv exampleWorld emptyFs) = Inr ()"
  by (simp_all add: verifyAndAddPredeployment_ok_iff verifyAndAddPredeployment_reg_ok_iff
      example_ids example_fs verifyWithEnvRpc_def example_env example_listed
      findChainData_ok_iff example_fetch example_find verifyWithChainlistRpc_def example_rpc
      writeArtifact_ok_iff example_io)

lemma example_unlisted:
  "verifyAndAddPredeployment exampleSetting (exampleEnv\<lparr>CHAIN_ID := Some ''7''\<rparr>)
     exampleWorld emptyFs = (Inl (chainNotListed 7), emptyFs)"
  "verifyAndAddPredeployment_reg exampleSetting (exampleEnv\<lparr>CHAIN_ID := Some ''7''\<rparr>)
     exampleWorld emptyFs = (Inl (chainNotListed_reg 7), emptyFs)"
  by (simp_all add: verifyAndAddPredeployment_steps [OF example_ids(3)]
      verifyAndAddPredeployment_reg_steps [OF example_ids(4)] example_fs
      verifyWithEnvRpc_def checkChainlist_def example_env
      findChainData_def example_fetch example_find exampleChainlist_def)

section \<open>The orchestrator\<close>

lemma finallyBlock_summary: "summary (finallyBlock key env w s f) = s"
  by (auto simp: finallyBlock_def writeFileSync_def split: option.splits)

lemma finallyBlock_rejected:
  "rejected (finallyBlock key env w s f) =
     (case SUMMARY_FILE env of
        None \<Rightarrow> None
      | Some summaryFile \<Rightarrow> if summaryFile = [] then None else writeError w summaryFile)"
  by (auto simp: finallyBlock_def writeFileSync_def split: option.splits)

lemma finallyBlock_exitCode:
  "exitCode (finallyBlock key env w s f) =
     (if rejected (finallyBlock key env w s f) = None \<and> \<not> success s then Some 1 else None)"
  by (auto simp: finallyBlock_def writeFileSync_def split: option.splits)

lemma addPredeployment_success:
  "success (summary (addPredeployment k env w f)) \<longleftrightarrow>
     fst (verifyAndAddPredeployment k env w f) = Inr ()"
  by (cases "verifyAndAddPredeployment k env w f")
    (auto simp: addPredeployment_def finallyBlock_summary split: sum.splits)

lemma addPredeployment_reg_success:
  "success (summary (addPredeployment_reg k env w f)) \<longleftrightarrow>
     fst (verifyAndAddPredeployment_reg k env w f) = Inr ()"
  by (cases "verifyAndAddPredeployment_reg k env w f")
    (auto simp: addPredeployment_reg_def finallyBlock_summary split: sum.splits)

lemma addPredeployment_rejected:
  "rejected (addPredeployment k env w f) =
     (case SUMMARY_FILE env of
        None \<Rightarrow> None
      | Some summaryFile \<Rightarrow> if summaryFile = [] then None else writeError w summaryFile)"
  by (cases "verifyAndAddPredeployment k env w f")
    (simp add: addPredeployment_def finallyBlock_rejected split: sum.splits)

lemma addPredeployment_reg_rejected:
  "rejected (addPredeployment_reg k env w f) =
     (case SUMMARY_FILE env of
        None \<Rightarrow> None
      | Some summaryFile \<Rightarrow> if summaryFile = [] then None else writeError w summaryFile)"
  by (cases "verifyAndAddPredeployment_reg k env w f")
    (simp add: addPredeployment_reg_def finallyBlock_rejected split: sum.splits)

lemma addPredeployment_exitCode:
  "exitCode (addPredeployment k env w f) =
     (if rejected (addPredeployment k env w f) = None
         \<and> \<not> success (summary (addPredeployment k env w f))
      then Some 1 else None)"
  by (cases "verifyAndAddPredeployment k env w f")
    (simp add: addPredeployment_def finallyBlock_exitCode finallyBlock_summary
      split: sum.splits)

lemma addPredeployment_reg_exitCode:
  "exitCode (addPredeployment_reg k env w f) =
     (if rejected (addPredeployment_reg k env w f) = None
         \<and> \<not> success (summary (addPredeployment_reg k env w f))
      then Some 1 else None)"
  by (cases "verifyAndAddPredeployment_reg k env w f")
    (simp add: addPredeployment_reg_def finallyBlock_exitCode finallyBlock_summary
      split: sum.splits)

section \<open>Substrings\<close>



section \<open>The claims\<close>













text \<open>
  Claim C5, as amended. Whenever \<^verbatim>\<open>addPredeployment\<close> returns without throwing, the exit status
  of the process is not zero exactly when the run summary has \<^verbatim>\<open>success: false\<close>, and zero
  exactly when it has \<^verbatim>\<open>success: true\<close>. It throws exactly when \<^verbatim>\<open>SUMMARY_FILE\<close> is set, not
  empty, and writing it fails; then \<^verbatim>\<open>process.exitCode\<close> is never assigned and the status is
  the one the caller gives to a rejected promise.
\<close>

theorem exit_status_follows_summary:
  "(rejected (addPredeployment k env w f) = None \<longrightarrow>
      (exitStatus onReject (addPredeployment k env w f) \<noteq> 0
         \<longleftrightarrow> \<not> success (summary (addPredeployment k env w f)))
      \<and> (exitStatus onReject (addPredeployment k env w f) = 0
         \<longleftrightarrow> success (summary (addPredeployment k env w f))))
   \<and> (rejected (addPredeployment_reg k env w f) = None \<longrightarrow>
      (exitStatus onReject (addPredeployment_reg k env w f) \<noteq> 0
         \<longleftrightarrow> \<not> success (summary (addPredeployment_reg k env w f)))
      \<and> (exitStatus onReject (addPredeployment_reg k env w f) = 0
         \<longleftrightarrow> success (summary (addPredeployment_reg k env w f))))
   \<and> (rejected (addPredeployment k env w f) \<noteq> None \<longleftrightarrow>
        (\<exists>p e. SUMMARY_FILE env = Some p \<and> p \<noteq> [] \<and> writeError w p = Some e))
   \<and> (rejected (addPredeployment_reg k env w f) \<noteq> None \<longleftrightarrow>
        (\<exists>p e. SUMMARY_FILE env = Some p \<and> p \<noteq> [] \<and> writeError w p = Some e))
   \<and> (rejected (addPredeployment k env w f) \<noteq> None \<longrightarrow>
        exitCode (addPredeployment k env w f) = None
        \<and> exitStatus onReject (addPredeployment k env w f) = onReject)
   \<and> (rejected (addPredeployment_reg k env w f) \<noteq> None \<longrightarrow>
        exitCode (addPredeployment_reg k env w f) = None
        \<and> exitStatus onReject (addPredeployment_reg k env w f) = onReject)"
proof (intro conjI impI)
  assume r: "rejected (addPredeployment k env w f) = None"
  then show "exitStatus onReject (addPredeployment k env w f) \<noteq> 0
      \<longleftrightarrow> \<not> success (summary (addPredeployment k env w f))"
    and "exitStatus onReject (addPredeployment k env w f) = 0
      \<longleftrightarrow> success (summary (addPredeployment k env w f))"
    by (simp_all add: exitStatus_def addPredeployment_exitCode)
next
  assume r: "rejected (addPredeployment_reg k env w f) = None"
  then show "exitStatus onReject (addPredeployment_reg k env w f) \<noteq> 0
      \<longleftrightarrow> \<not> success (summary (addPredeployment_reg k env w f))"
    and "exitStatus onReject (addPredeployment_reg k env w f) = 0
      \<longleftrightarrow> success (summary (addPredeployment_reg k env w f))"
    by (simp_all add: exitStatus_def addPredeployment_reg_exitCode)
next
  show "rejected (addPredeployment k env w f) \<noteq> None \<longleftrightarrow>
      (\<exists>p e. SUMMARY_FILE env = Some p \<and> p \<noteq> [] \<and> writeError w p = Some e)"
    by (auto simp: addPredeployment_rejected split: option.splits)
  show "rejected (addPredeployment_reg k env w f) \<noteq> None \<longleftrightarrow>
      (\<exists>p e. SUMMARY_FILE env = Some p \<and> p \<noteq> [] \<and> writeError w p = Some e)"
    by (auto simp: addPredeployment_reg_rejected split: option.splits)
next
  assume "rejected (addPredeployment k env w f) \<noteq> None"
  then show "exitCode (addPredeployment k env w f) = None"
    and "exitStatus onReject (addPredeployment k env w f) = onReject"
    by (auto simp: exitStatus_def addPredeployment_exitCode)
next
  assume "rejected (addPredeployment_reg k env w f) \<noteq> None"
  then show "exitCode (addPredeployment_reg k env w f) = None"
    and "exitStatus onReject (addPredeployment_reg k env w f) = onReject"
    by (auto simp: exitStatus_def addPredeployment_reg_exitCode)
qed

theorem exit_status_follows_summary_witness:
  "exitStatus 1 (addPredeployment exampleSetting exampleEnv exampleWorld emptyFs) = 0
   \<and> success (summary (addPredeployment exampleSetting exampleEnv exampleWorld emptyFs))
   \<and> exitStatus 1 (addPredeployment_reg exampleSetting (exampleEnv\<lparr>CHAIN_ID := Some ''7''\<rparr>)
        exampleWorld emptyFs) \<noteq> 0
   \<and> \<not> success (summary (addPredeployment_reg exampleSetting
        (exampleEnv\<lparr>CHAIN_ID := Some ''7''\<rparr>) exampleWorld emptyFs))
   \<and> exitCode (addPredeployment exampleSetting summaryEnv summaryFailsWorld emptyFs) = None
   \<and> exitStatus 1 (addPredeployment exampleSetting summaryEnv summaryFailsWorld emptyFs) = 1"
proof -
  have r1: "rejected (addPredeployment exampleSetting exampleEnv exampleWorld emptyFs) = None"
    by (simp add: addPredeployment_rejected example_env)
  have r2: "rejected (addPredeployment_reg exampleSetting (exampleEnv\<lparr>CHAIN_ID := Some ''7''\<rparr>)
      exampleWorld emptyFs) = None"
    by (simp add: addPredeployment_reg_rejected example_env)
  have s1: "success (summary (addPredeployment exampleSetting exampleEnv exampleWorld
      emptyFs))"
    by (simp add: addPredeployment_success example_run)
  have s2: "\<not> success (summary (addPredeployment_reg exampleSetting
      (exampleEnv\<lparr>CHAIN_ID := Some ''7''\<rparr>) exampleWorld emptyFs))"
    by (simp add: addPredeployment_reg_success example_unlisted)
  have a: "exitStatus 1 (addPredeployment exampleSetting exampleEnv exampleWorld emptyFs) = 0"
    using exit_status_follows_summary
      [of exampleSetting exampleEnv exampleWorld emptyFs 1, THEN conjunct1, THEN mp, OF r1,
        THEN conjunct2] s1
    by (rule iffD2)
  have b: "exitStatus 1 (addPredeployment_reg exampleSetting (exampleEnv\<lparr>CHAIN_ID := Some ''7''\<rparr>)
      exampleWorld emptyFs) \<noteq> 0"
    using exit_status_follows_summary
      [of exampleSetting "exampleEnv\<lparr>CHAIN_ID := Some ''7''\<rparr>" exampleWorld emptyFs 1,
        THEN conjunct2, THEN conjunct1, THEN mp, OF r2, THEN conjunct1] s2
    by (rule iffD2)
  have r3: "rejected (addPredeployment exampleSetting summaryEnv summaryFailsWorld emptyFs)
      \<noteq> None"
    by (simp add: addPredeployment_rejected summaryEnv_def summaryFailsWorld_def)
  note c = exit_status_follows_summary
    [of exampleSetting summaryEnv summaryFailsWorld emptyFs 1, THEN conjunct2, THEN conjunct2,
      THEN conjunct2, THEN conjunct2, THEN conjunct1, THEN mp, OF r3]
  show ?thesis
    by (intro conjI) (rule a s1 b s2 c [THEN conjunct1] c [THEN conjunct2])+
qed

text \<open>
  The claim as stated fails whatever the caller does with a rejected promise. When the
  summary file cannot be written the exit code is never assigned: if the caller exits
  with zero, a failed run (no \<^verbatim>\<open>CHAIN_ID\<close>) ends with status zero; if the caller exits with
  one, a successful run ends with status one.
\<close>

theorem exit_status_counterexample:
  "\<not> success (summary (addPredeployment exampleSetting (summaryEnv\<lparr>CHAIN_ID := None\<rparr>)
        summaryFailsWorld emptyFs))
   \<and> exitCode (addPredeployment exampleSetting (summaryEnv\<lparr>CHAIN_ID := None\<rparr>)
        summaryFailsWorld emptyFs) = None
   \<and> exitStatus 0 (addPredeployment exampleSetting (summaryEnv\<lparr>CHAIN_ID := None\<rparr>)
        summaryFailsWorld emptyFs) = 0
   \<and> success (summary (addPredeployment exampleSetting summaryEnv summaryFailsWorld emptyFs))
   \<and> exitStatus 1 (addPredeployment exampleSetting summaryEnv summaryFailsWorld emptyFs) = 1
   \<and> \<not> success (summary (addPredeployment_reg exampleSetting (summaryEnv\<lparr>CHAIN_ID := None\<rparr>)
        summaryFailsWorld emptyFs))
   \<and> exitStatus 0 (addPredeployment_reg exampleSetting (summaryEnv\<lparr>CHAIN_ID := None\<rparr>)
        summaryFailsWorld emptyFs) = 0
   \<and> success (summary (addPredeployment_reg exampleSetting summaryEnv summaryFailsWorld
        emptyFs))
   \<and> exitStatus 1 (addPredeployment_reg exampleSetting summaryEnv summaryFailsWorld emptyFs)
       = 1"
proof -
  have id: "validateChainId summaryEnv = Inr 5" "validateChainId_reg summaryEnv = Inr 5"
    by (simp_all add: validateChainId_def validateChainId_reg_def summaryEnv_def example_env
        example_parseInt)
  have noid: "validateChainId (summaryEnv\<lparr>CHAIN_ID := None\<rparr>) = Inl chainIdNotProvided"
    "validateChainId_reg (summaryEnv\<lparr>CHAIN_ID := None\<rparr>) = Inl chainIdNotProvided_reg"
    by (simp_all add: validateChainId_def validateChainId_reg_def)
  have fetch: "fetchChainlist summaryFailsWorld = Inr exampleChainlist"
    by (simp add: fetchChainlist_def summaryFailsWorld_def exampleWorld_def ok_def)
  have io: "mkdirError summaryFailsWorld (artifactDir exampleSetting 5) = None"
    "writeError summaryFailsWorld (artifactPath exampleSetting 5) = None"
    by (simp_all add: summaryFailsWorld_def exampleWorld_def example_paths)
  have okA: "fst (verifyAndAddPredeployment exampleSetting summaryEnv summaryFailsWorld emptyFs)
      = Inr ()"
    using id io
    by (simp add: verifyAndAddPredeployment_ok_iff example_fs verifyWithEnvRpc_def
        checkChainlist_ok_iff fetch exampleChainlist_def writeArtifact_ok_iff
        summaryEnv_def example_env)
  have okB: "fst (verifyAndAddPredeployment_reg exampleSetting summaryEnv summaryFailsWorld
      emptyFs) = Inr ()"
    using id io
    by (simp add: verifyAndAddPredeployment_reg_ok_iff example_fs findChainData_ok_iff fetch
        example_find verifyWithChainlistRpc_def example_rpc writeArtifact_ok_iff)
  have badA: "fst (verifyAndAddPredeployment exampleSetting (summaryEnv\<lparr>CHAIN_ID := None\<rparr>)
      summaryFailsWorld emptyFs) \<noteq> Inr ()"
    by (simp add: verifyAndAddPredeployment_def noid)
  have badB: "fst (verifyAndAddPredeployment_reg exampleSetting
      (summaryEnv\<lparr>CHAIN_ID := None\<rparr>) summaryFailsWorld emptyFs) \<noteq> Inr ()"
    by (simp add: verifyAndAddPredeployment_reg_def noid)
  have rej: "rejected (addPredeployment exampleSetting summaryEnv summaryFailsWorld emptyFs)
      = Some noSuchDirectory"
    "rejected (addPredeployment exampleSetting (summaryEnv\<lparr>CHAIN_ID := None\<rparr>)
      summaryFailsWorld emptyFs) = Some noSuchDirectory"
    "rejected (addPredeployment_reg exampleSetting summaryEnv summaryFailsWorld emptyFs)
      = Some noSuchDirectory"
    "rejected (addPredeployment_reg exampleSetting (summaryEnv\<lparr>CHAIN_ID := None\<rparr>)
      summaryFailsWorld emptyFs) = Some noSuchDirectory"
    by (simp_all add: addPredeployment_rejected addPredeployment_reg_rejected summaryEnv_def
        summaryFailsWorld_def)
  show ?thesis
    using okA okB badA badB
    by (simp add: addPredeployment_success addPredeployment_reg_success exitStatus_def rej
        addPredeployment_exitCode)
qed

text \<open>
  Claim C6, as amended. On-chain verification asks the endpoint for its chain identifier
  and then for the bytecode at the well-known address; an error of either query is thrown
  on as it is. With the answers at hand it fails exactly when one of three checks fails,
  tested in this order: the reported identifier differs from the expected one (the
  bytecode is then not looked at); the bytecode is empty; the hash of the bytecode differs
  from the expected constant. The three failures have distinct causes, and a failed
  verification aborts the pipeline with its error and leaves the files as they were.
\<close>

theorem on_chain_verification_checks:
  "(\<forall>reported. getNetwork w url = Inr reported \<and> reported \<noteq> n \<longrightarrow>
      verifyPredeployment k w url n = Inl (chainIdMismatch n reported)
      \<and> verifyPredeployment_reg k w url n = Inl (chainIdMismatch_reg n reported))
   \<and> (getNetwork w url = Inr n \<and> getCode w url (ADDRESS k) = Inr [] \<longrightarrow>
      verifyPredeployment k w url n = Inl (factoryNotDeployed k)
      \<and> verifyPredeployment_reg k w url n = Inl (factoryNotDeployed_reg k))
   \<and> (\<forall>code. getNetwork w url = Inr n \<and> getCode w url (ADDRESS k) = Inr code
          \<and> code \<noteq> [] \<and> keccak256 k code \<noteq> CODEHASH k \<longrightarrow>
      verifyPredeployment k w url n = Inl (factoryDifferentBytecode k)
      \<and> verifyPredeployment_reg k w url n = Inl (factoryDifferentBytecode_reg k))
   \<and> (verifyPredeployment k w url n = Inr () \<longleftrightarrow>
        getNetwork w url = Inr n
        \<and> (\<exists>code. getCode w url (ADDRESS k) = Inr code \<and> code \<noteq> []
              \<and> keccak256 k code = CODEHASH k))
   \<and> (verifyPredeployment_reg k w url n = Inr () \<longleftrightarrow>
        getNetwork w url = Inr n
        \<and> (\<exists>code. getCode w url (ADDRESS k) = Inr code \<and> code \<noteq> []
              \<and> keccak256 k code = CODEHASH k))
   \<and> (\<forall>e. getNetwork w url = Inl e
          \<or> (getNetwork w url = Inr n \<and> getCode w url (ADDRESS k) = Inl e) \<longrightarrow>
        verifyPredeployment k w url n = Inl e \<and> verifyPredeployment_reg k w url n = Inl e)
   \<and> chainIdMismatch n r \<noteq> factoryNotDeployed k
   \<and> chainIdMismatch n r \<noteq> factoryDifferentBytecode k
   \<and> factoryNotDeployed k \<noteq> factoryDifferentBytecode k
   \<and> chainIdMismatch_reg n r \<noteq> factoryNotDeployed_reg k
   \<and> chainIdMismatch_reg n r \<noteq> factoryDifferentBytecode_reg k
   \<and> factoryNotDeployed_reg k \<noteq> factoryDifferentBytecode_reg k
   \<and> (\<forall>e. validateChainId env = Inr n \<and> \<not> existsSync f (artifactPath k n)
          \<and> RPC env = Some url \<and> url \<noteq> [] \<and> verifyPredeployment k w url n = Inl e \<longrightarrow>
        verifyAndAddPredeployment k env w f = (Inl e, f))
   \<and> (\<forall>e cl cd. validateChainId_reg env = Inr n \<and> \<not> existsSync f (artifactPath k n)
          \<and> fetchChainlist w = Inr cl \<and> find (\<lambda>item. chainId item = n) cl = Some cd
          \<and> getRpcFromChainData cd = Some url
          \<and> verifyPredeployment_reg k w url n = Inl e \<longrightarrow>
        verifyAndAddPredeployment_reg k env w f = (Inl e, f))"
proof (intro conjI allI impI)
  fix reported
  assume "getNetwork w url = Inr reported \<and> reported \<noteq> n"
  then show "verifyPredeployment k w url n = Inl (chainIdMismatch n reported)"
    and "verifyPredeployment_reg k w url n = Inl (chainIdMismatch_reg n reported)"
    by (simp_all add: verifyPredeployment_def verifyPredeployment_reg_def)
next
  assume "getNetwork w url = Inr n \<and> getCode w url (ADDRESS k) = Inr []"
  then show "verifyPredeployment k w url n = Inl (factoryNotDeployed k)"
    and "verifyPredeployment_reg k w url n = Inl (factoryNotDeployed_reg k)"
    by (simp_all add: verifyPredeployment_def verifyPredeployment_reg_def hexDataLength_def)
next
  fix code
  assume "getNetwork w url = Inr n \<and> getCode w url (ADDRESS k) = Inr code
    \<and> code \<noteq> [] \<and> keccak256 k code \<noteq> CODEHASH k"
  then show "verifyPredeployment k w url n = Inl (factoryDifferentBytecode k)"
    and "verifyPredeployment_reg k w url n = Inl (factoryDifferentBytecode_reg k)"
    by (simp_all add: verifyPredeployment_def verifyPredeployment_reg_def hexDataLength_def)
next
  show "verifyPredeployment k w url n = Inr () \<longleftrightarrow>
        getNetwork w url = Inr n
        \<and> (\<exists>code. getCode w url (ADDRESS k) = Inr code \<and> code \<noteq> []
              \<and> keccak256 k code = CODEHASH k)"
    by (rule verifyPredeployment_ok_iff)
  show "verifyPredeployment_reg k w url n = Inr () \<longleftrightarrow>
        getNetwork w url = Inr n
        \<and> (\<exists>code. getCode w url (ADDRESS k) = Inr code \<and> code \<noteq> []
              \<and> keccak256 k code = CODEHASH k)"
    by (rule verifyPredeployment_reg_ok_iff)
next
  fix e
  assume "getNetwork w url = Inl e
    \<or> (getNetwork w url = Inr n \<and> getCode w url (ADDRESS k) = Inl e)"
  then show "verifyPredeployment k w url n = Inl e"
    and "verifyPredeployment_reg k w url n = Inl e"
    by (auto simp: verifyPredeployment_def verifyPredeployment_reg_def)
next
  show "chainIdMismatch n r \<noteq> factoryNotDeployed k"
    "chainIdMismatch n r \<noteq> factoryDifferentBytecode k"
    "factoryNotDeployed k \<noteq> factoryDifferentBytecode k"
    by (simp_all add: chainIdMismatch_def factoryNotDeployed_def factoryDifferentBytecode_def)
  show "chainIdMismatch_reg n r \<noteq> factoryNotDeployed_reg k"
    "chainIdMismatch_reg n r \<noteq> factoryDifferentBytecode_reg k"
    "factoryNotDeployed_reg k \<noteq> factoryDifferentBytecode_reg k"
    by (simp_all add: chainIdMismatch_reg_def factoryNotDeployed_reg_def
        factoryDifferentBytecode_reg_def newError_def)
next
  fix e
  assume a: "validateChainId env = Inr n \<and> \<not> existsSync f (artifactPath k n)
    \<and> RPC env = Some url \<and> url \<noteq> [] \<and> verifyPredeployment k w url n = Inl e"
  then have "verifyWithEnvRpc k env w n = Inl e"
    by (simp add: verifyWithEnvRpc_def)
  with a show "verifyAndAddPredeployment k env w f = (Inl e, f)"
    by (simp add: verifyAndAddPredeployment_steps)
next
  fix e cl cd
  assume a: "validateChainId_reg env = Inr n \<and> \<not> existsSync f (artifactPath k n)
    \<and> fetchChainlist w = Inr cl \<and> find (\<lambda>item. chainId item = n) cl = Some cd
    \<and> getRpcFromChainData cd = Some url
    \<and> verifyPredeployment_reg k w url n = Inl e"
  then have "url \<noteq> []" by (auto dest: getRpcFromChainData_nonempty)
  with a have "verifyWithChainlistRpc k w cd n = Inl e"
    by (simp add: verifyWithChainlistRpc_def)
  moreover have "findChainData w n = Inr cd"
    using a by (simp add: findChainData_ok_iff)
  ultimately show "verifyAndAddPredeployment_reg k env w f = (Inl e, f)"
    using a by (simp add: verifyAndAddPredeployment_reg_steps)
qed

theorem on_chain_verification_checks_witness:
  "verifyPredeployment exampleSetting exampleWorld ''https://ten.example/rpc'' 5
     = Inl (chainIdMismatch 5 10)
   \<and> verifyPredeployment_reg exampleSetting (exampleWorld\<lparr>getCode := \<lambda>url address. Inr []\<rparr>)
        ''https://ten.example/rpc'' 10 = Inl (factoryNotDeployed_reg exampleSetting)
   \<and> verifyPredeployment exampleSetting (exampleWorld\<lparr>getCode := \<lambda>url address. Inr [0x00]\<rparr>)
        ''https://ten.example/rpc'' 10 = Inl (factoryDifferentBytecode exampleSetting)
   \<and> verifyPredeployment exampleSetting exampleWorld ''https://ten.example/rpc'' 10 = Inr ()
   \<and> verifyPredeployment_reg exampleSetting exampleWorld ''https://down.example'' 10
       = Inl (Error ''Error'' ''could not detect network'')
   \<and> verifyAndAddPredeployment exampleSetting
        (exampleEnv\<lparr>RPC := Some ''https://ten.example/rpc''\<rparr>) exampleWorld emptyFs
       = (Inl (chainIdMismatch 5 10), emptyFs)
   \<and> verifyAndAddPredeployment_reg exampleSetting (exampleEnv\<lparr>CHAIN_ID := Some ''10''\<rparr>)
        (exampleWorld\<lparr>getCode := \<lambda>url address. Inr []\<rparr>) emptyFs
       = (Inl (factoryNotDeployed_reg exampleSetting), emptyFs)"
proof -
  let ?url = "''https://ten.example/rpc''"
  let ?empty = "exampleWorld\<lparr>getCode := \<lambda>url address. Inr []\<rparr>"
  let ?other = "exampleWorld\<lparr>getCode := \<lambda>url address. Inr [0x00]\<rparr>"
  have net: "getNetwork exampleWorld ?url = Inr 10" "getNetwork ?empty ?url = Inr 10"
    "getNetwork ?other ?url = Inr 10"
    by (simp_all add: exampleWorld_def)
  have h1: "getNetwork exampleWorld ?url = Inr 10 \<and> (10::int) \<noteq> 5"
    by (simp add: net)
  have a: "verifyPredeployment exampleSetting exampleWorld ?url 5 = Inl (chainIdMismatch 5 10)"
    using on_chain_verification_checks
      [where w = exampleWorld and url = ?url and n = 5 and k = exampleSetting,
        THEN conjunct1, THEN spec, THEN mp, OF h1]
    by (rule conjunct1)
  have h2: "getNetwork ?empty ?url = Inr 10 \<and> getCode ?empty ?url (ADDRESS exampleSetting) = Inr []"
    by (simp add: net)
  note empty = on_chain_verification_checks
    [where w = ?empty and url = ?url and n = 10 and k = exampleSetting
      and env = "exampleEnv\<lparr>CHAIN_ID := Some ''10''\<rparr>" and f = emptyFs]
  have b: "verifyPredeployment_reg exampleSetting ?empty ?url 10
      = Inl (factoryNotDeployed_reg exampleSetting)"
    using empty [THEN conjunct2, THEN conjunct1, THEN mp, OF h2] by (rule conjunct2)
  have h3: "getNetwork ?other ?url = Inr 10
      \<and> getCode ?other ?url (ADDRESS exampleSetting) = Inr [0x00] \<and> [0x00 :: 8 word] \<noteq> []
      \<and> keccak256 exampleSetting [0x00] \<noteq> CODEHASH exampleSetting"
    by (simp add: net) (simp add: exampleSetting_def)
  have c: "verifyPredeployment exampleSetting ?other ?url 10
      = Inl (factoryDifferentBytecode exampleSetting)"
    using on_chain_verification_checks
      [where w = ?other and url = ?url and n = 10 and k = exampleSetting,
        THEN conjunct2, THEN conjunct2, THEN conjunct1, THEN spec, THEN mp, OF h3]
    by (rule conjunct1)
  have h4: "getNetwork exampleWorld ?url = Inr 10
      \<and> (\<exists>code. getCode exampleWorld ?url (ADDRESS exampleSetting) = Inr code \<and> code \<noteq> []
            \<and> keccak256 exampleSetting code = CODEHASH exampleSetting)"
    by (simp add: net) (simp add: exampleWorld_def exampleSetting_def)
  have d: "verifyPredeployment exampleSetting exampleWorld ?url 10 = Inr ()"
    using on_chain_verification_checks
      [where w = exampleWorld and url = ?url and n = 10 and k = exampleSetting,
        THEN conjunct2, THEN conjunct2, THEN conjunct2, THEN conjunct1] h4
    by (rule iffD2)
  have h5: "getNetwork exampleWorld ''https://down.example''
        = Inl (Error ''Error'' ''could not detect network'')
      \<or> (getNetwork exampleWorld ''https://down.example'' = Inr 10
          \<and> getCode exampleWorld ''https://down.example'' (ADDRESS exampleSetting)
              = Inl (Error ''Error'' ''could not detect network''))"
    by (simp add: exampleWorld_def)
  have e: "verifyPredeployment_reg exampleSetting exampleWorld ''https://down.example'' 10
      = Inl (Error ''Error'' ''could not detect network'')"
    using on_chain_verification_checks
      [where w = exampleWorld and url = "''https://down.example''" and n = 10
        and k = exampleSetting,
        THEN conjunct2, THEN conjunct2, THEN conjunct2, THEN conjunct2, THEN conjunct2,
        THEN conjunct1, THEN spec, THEN mp, OF h5]
    by (rule conjunct2)
  have h6: "validateChainId (exampleEnv\<lparr>RPC := Some ?url\<rparr>) = Inr 5
      \<and> \<not> existsSync emptyFs (artifactPath exampleSetting 5)
      \<and> RPC (exampleEnv\<lparr>RPC := Some ?url\<rparr>) = Some ?url \<and> ?url \<noteq> []
      \<and> verifyPredeployment exampleSetting exampleWorld ?url 5 = Inl (chainIdMismatch 5 10)"
    by (simp add: a example_fs validateChainId_def example_env example_parseInt)
  have g: "verifyAndAddPredeployment exampleSetting (exampleEnv\<lparr>RPC := Some ?url\<rparr>)
      exampleWorld emptyFs = (Inl (chainIdMismatch 5 10), emptyFs)"
    using on_chain_verification_checks
      [where w = exampleWorld and url = ?url and n = 5 and k = exampleSetting
        and env = "exampleEnv\<lparr>RPC := Some ?url\<rparr>" and f = emptyFs,
        THEN conjunct2, THEN conjunct2, THEN conjunct2, THEN conjunct2, THEN conjunct2,
        THEN conjunct2, THEN conjunct2, THEN conjunct2, THEN conjunct2, THEN conjunct2,
        THEN conjunct2, THEN conjunct2, THEN conjunct1, THEN spec, THEN mp, OF h6] .
  have fetch: "fetchChainlist ?empty = Inr exampleChainlist"
    by (simp add: fetchChainlist_def exampleWorld_def ok_def)
  have h7: "validateChainId_reg (exampleEnv\<lparr>CHAIN_ID := Some ''10''\<rparr>) = Inr 10
      \<and> \<not> existsSync emptyFs (artifactPath exampleSetting 10)
      \<and> fetchChainlist ?empty = Inr exampleChainlist
      \<and> find (\<lambda>item. chainId item = 10) exampleChainlist
          = Some \<lparr>chainId = 10, rpc = Some [''wss://ten.example/ws'', ?url]\<rparr>
      \<and> getRpcFromChainData \<lparr>chainId = 10, rpc = Some [''wss://ten.example/ws'', ?url]\<rparr>
          = Some ?url
      \<and> verifyPredeployment_reg exampleSetting ?empty ?url 10
          = Inl (factoryNotDeployed_reg exampleSetting)"
    by (simp add: b fetch example_ids example_fs example_find example_rpc)
  have h: "verifyAndAddPredeployment_reg exampleSetting (exampleEnv\<lparr>CHAIN_ID := Some ''10''\<rparr>)
      ?empty emptyFs = (Inl (factoryNotDeployed_reg exampleSetting), emptyFs)"
    using empty
      [THEN conjunct2, THEN conjunct2, THEN conjunct2, THEN conjunct2, THEN conjunct2,
        THEN conjunct2, THEN conjunct2, THEN conjunct2, THEN conjunct2, THEN conjunct2,
        THEN conjunct2, THEN conjunct2, THEN conjunct2, THEN spec, THEN spec, THEN spec,
        THEN mp, OF h7] .
  show ?thesis
    by (intro conjI) (rule a b c d e g h)+
qed

text \<open>
  The claim as stated fails: the endpoint does not answer, the verification fails with
  the provider's error, and none of the three checks has failed.
\<close>

theorem on_chain_verification_counterexample:
  "getNetwork exampleWorld ''https://down.example''
     = Inl (Error ''Error'' ''could not detect network'')
   \<and> verifyPredeployment exampleSetting exampleWorld ''https://down.example'' 5
       = Inl (Error ''Error'' ''could not detect network'')
   \<and> verifyPredeployment_reg exampleSetting exampleWorld ''https://down.example'' 5
       = Inl (Error ''Error'' ''could not detect network'')
   \<and> \<not> startsWith ''could not detect network'' ''Chain ID mismatch''
   \<and> Error ''Error'' ''could not detect network'' \<noteq> factoryNotDeployed exampleSetting
   \<and> Error ''Error'' ''could not detect network'' \<noteq> factoryDifferentBytecode exampleSetting
   \<and> Error ''Error'' ''could not detect network'' \<noteq> factoryNotDeployed_reg exampleSetting
   \<and> Error ''Error'' ''could not detect network''
       \<noteq> factoryDifferentBytecode_reg exampleSetting
   \<and> verifyAndAddPredeployment exampleSetting
        (exampleEnv\<lparr>RPC := Some ''https://down.example''\<rparr>) exampleWorld emptyFs
       = (Inl (Error ''Error'' ''could not detect network''), emptyFs)"
proof -
  have net: "getNetwork exampleWorld ''https://down.example''
      = Inl (Error ''Error'' ''could not detect network'')"
    by (simp add: exampleWorld_def)
  have id: "validateChainId (exampleEnv\<lparr>RPC := Some ''https://down.example''\<rparr>) = Inr 5"
    by (simp add: validateChainId_def example_env example_parseInt)
  have v: "verifyPredeployment exampleSetting exampleWorld ''https://down.example'' 5
      = Inl (Error ''Error'' ''could not detect network'')"
    by (simp add: verifyPredeployment_def net)
  have run: "verifyAndAddPredeployment exampleSetting
      (exampleEnv\<lparr>RPC := Some ''https://down.example''\<rparr>) exampleWorld emptyFs
      = (Inl (Error ''Error'' ''could not detect network''), emptyFs)"
    by (simp add: verifyAndAddPredeployment_steps [OF id] example_fs verifyWithEnvRpc_def v)
  show ?thesis
    by (simp add: net v run verifyPredeployment_reg_def startsWith_def factoryNotDeployed_def
        factoryDifferentBytecode_def factoryNotDeployed_reg_def
        factoryDifferentBytecode_reg_def newError_def)
qed

text \<open>
  Claim C7. In the version that takes the endpoint from the registry,
  \<^verbatim>\<open>getRpcFromChainData\<close> returns the first element of the entry's \<^verbatim>\<open>rpc\<close> list that begins with
  \<^verbatim>\<open>http://\<close> or \<^verbatim>\<open>https://\<close>, and no endpoint when the list is absent, empty or without such an
  element. With no endpoint the pipeline goes on to write the artifact and asks no
  provider: its result does not depend on what a provider would answer.
\<close>

theorem rpc_endpoint_from_registry_entry:
  "getRpcFromChainData cd =
     (case rpc cd of
        None \<Rightarrow> None
      | Some urls \<Rightarrow>
          find (\<lambda>url. startsWith url ''http://'' \<or> startsWith url ''https://'') urls)
   \<and> (\<forall>url. getRpcFromChainData cd = Some url \<longleftrightarrow>
        (\<exists>urls i. rpc cd = Some urls \<and> i < length urls \<and> urls ! i = url
           \<and> (startsWith url ''http://'' \<or> startsWith url ''https://'')
           \<and> (\<forall>j < i. \<not> (startsWith (urls ! j) ''http://''
                            \<or> startsWith (urls ! j) ''https://''))))
   \<and> (getRpcFromChainData cd = None \<longleftrightarrow>
        rpc cd = None
        \<or> (\<exists>urls. rpc cd = Some urls
              \<and> (\<forall>url \<in> set urls. \<not> (startsWith url ''http://''
                                      \<or> startsWith url ''https://''))))
   \<and> (rpc cd = Some [] \<longrightarrow> getRpcFromChainData cd = None)
   \<and> (\<forall>n cl. validateChainId_reg env = Inr n \<and> \<not> existsSync f (artifactPath k n)
          \<and> fetchChainlist w = Inr cl \<and> find (\<lambda>item. chainId item = n) cl = Some cd
          \<and> getRpcFromChainData cd = None \<longrightarrow>
        verifyAndAddPredeployment_reg k env w f = writeArtifact k w n f
        \<and> (\<forall>g c. verifyAndAddPredeployment_reg k env (w\<lparr>getNetwork := g, getCode := c\<rparr>) f
                   = verifyAndAddPredeployment_reg k env w f))"
proof (intro conjI allI impI)
  show eq: "getRpcFromChainData cd =
     (case rpc cd of
        None \<Rightarrow> None
      | Some urls \<Rightarrow>
          find (\<lambda>url. startsWith url ''http://'' \<or> startsWith url ''https://'') urls)"
    by (cases "rpc cd") (auto simp: getRpcFromChainData_def firstHttpRpc_find)
  show "getRpcFromChainData cd = Some url \<longleftrightarrow>
        (\<exists>urls i. rpc cd = Some urls \<and> i < length urls \<and> urls ! i = url
           \<and> (startsWith url ''http://'' \<or> startsWith url ''https://'')
           \<and> (\<forall>j < i. \<not> (startsWith (urls ! j) ''http://''
                            \<or> startsWith (urls ! j) ''https://'')))" for url
    unfolding eq by (cases "rpc cd") (auto simp: find_Some_iff)
  show "getRpcFromChainData cd = None \<longleftrightarrow>
        rpc cd = None
        \<or> (\<exists>urls. rpc cd = Some urls
              \<and> (\<forall>url \<in> set urls. \<not> (startsWith url ''http://''
                                      \<or> startsWith url ''https://'')))"
    unfolding eq by (cases "rpc cd") (auto simp: find_None_iff)
  show "getRpcFromChainData cd = None" if "rpc cd = Some []"
    using that by (simp add: getRpcFromChainData_def)
next
  fix n cl
  assume a: "validateChainId_reg env = Inr n \<and> \<not> existsSync f (artifactPath k n)
    \<and> fetchChainlist w = Inr cl \<and> find (\<lambda>item. chainId item = n) cl = Some cd
    \<and> getRpcFromChainData cd = None"
  then have found: "findChainData w n = Inr cd"
    by (simp add: findChainData_ok_iff)
  have skip: "verifyWithChainlistRpc k w' cd n = Inr ()" for w'
    using a by (simp add: verifyWithChainlistRpc_def)
  show run: "verifyAndAddPredeployment_reg k env w f = writeArtifact k w n f"
    using a found skip by (simp add: verifyAndAddPredeployment_reg_steps)
  show "verifyAndAddPredeployment_reg k env (w\<lparr>getNetwork := g, getCode := c\<rparr>) f
      = verifyAndAddPredeployment_reg k env w f" for g c
  proof -
    have "findChainData (w\<lparr>getNetwork := g, getCode := c\<rparr>) n = Inr cd"
      using found by (simp add: findChainData_def fetchChainlist_def)
    moreover have "writeArtifact k (w\<lparr>getNetwork := g, getCode := c\<rparr>) n f
        = writeArtifact k w n f"
      by (simp add: writeArtifact_result)
    ultimately show ?thesis
      using a skip run by (simp add: verifyAndAddPredeployment_reg_steps)
  qed
qed

theorem rpc_endpoint_from_registry_entry_witness:
  "getRpcFromChainData
     \<lparr>chainId = 10, rpc = Some [''wss://ten.example/ws'', ''https://ten.example/rpc'']\<rparr>
     = Some ''https://ten.example/rpc''
   \<and> getRpcFromChainData \<lparr>chainId = 5, rpc = None\<rparr> = None
   \<and> getRpcFromChainData \<lparr>chainId = 5, rpc = Some []\<rparr> = None
   \<and> getRpcFromChainData \<lparr>chainId = 5, rpc = Some [''wss://five.example'']\<rparr> = None
   \<and> verifyAndAddPredeployment_reg exampleSetting exampleEnv exampleWorld emptyFs
       = writeArtifact exampleSetting exampleWorld 5 emptyFs
   \<and> verifyAndAddPredeployment_reg exampleSetting exampleEnv
        (exampleWorld\<lparr>getNetwork := \<lambda>url. Inr 999, getCode := \<lambda>url address. Inr []\<rparr>) emptyFs
       = verifyAndAddPredeployment_reg exampleSetting exampleEnv exampleWorld emptyFs"
proof -
  let ?ten = "\<lparr>chainId = 10, rpc = Some [''wss://ten.example/ws'', ''https://ten.example/rpc'']\<rparr>"
  have h1: "\<exists>urls i. rpc ?ten = Some urls \<and> i < length urls
      \<and> urls ! i = ''https://ten.example/rpc''
      \<and> (startsWith ''https://ten.example/rpc'' ''http://''
           \<or> startsWith ''https://ten.example/rpc'' ''https://'')
      \<and> (\<forall>j < i. \<not> (startsWith (urls ! j) ''http://'' \<or> startsWith (urls ! j) ''https://''))"
    by (rule exI [of _ "[''wss://ten.example/ws'', ''https://ten.example/rpc'']"],
        rule exI [of _ 1]) (simp add: startsWith_def)
  have a: "getRpcFromChainData ?ten = Some ''https://ten.example/rpc''"
    using rpc_endpoint_from_registry_entry
      [where cd = ?ten, THEN conjunct2, THEN conjunct1, THEN spec] h1
    by (rule iffD2)
  have h2: "rpc \<lparr>chainId = 5, rpc = None\<rparr> = None
      \<or> (\<exists>urls. rpc \<lparr>chainId = 5, rpc = None\<rparr> = Some urls
            \<and> (\<forall>url \<in> set urls. \<not> (startsWith url ''http://''
                                    \<or> startsWith url ''https://'')))"
    by simp
  have b: "getRpcFromChainData \<lparr>chainId = 5, rpc = None\<rparr> = None"
    using rpc_endpoint_from_registry_entry
      [where cd = "\<lparr>chainId = 5, rpc = None\<rparr>", THEN conjunct2, THEN conjunct2,
        THEN conjunct1] h2
    by (rule iffD2)
  have h3: "rpc \<lparr>chainId = 5, rpc = Some []\<rparr> = Some []" by simp
  note c = rpc_endpoint_from_registry_entry
    [where cd = "\<lparr>chainId = 5, rpc = Some []\<rparr>", THEN conjunct2, THEN conjunct2,
      THEN conjunct2, THEN conjunct1, THEN mp, OF h3]
  have h4: "rpc \<lparr>chainId = 5, rpc = Some [''wss://five.example'']\<rparr> = None
      \<or> (\<exists>urls. rpc \<lparr>chainId = 5, rpc = Some [''wss://five.example'']\<rparr> = Some urls
            \<and> (\<forall>url \<in> set urls. \<not> (startsWith url ''http://''
                                    \<or> startsWith url ''https://'')))"
    by (simp add: startsWith_def)
  have d: "getRpcFromChainData \<lparr>chainId = 5, rpc = Some [''wss://five.example'']\<rparr> = None"
    using rpc_endpoint_from_registry_entry
      [where cd = "\<lparr>chainId = 5, rpc = Some [''wss://five.example'']\<rparr>", THEN conjunct2,
        THEN conjunct2, THEN conjunct1] h4
    by (rule iffD2)
  have h5: "validateChainId_reg exampleEnv = Inr 5
      \<and> \<not> existsSync emptyFs (artifactPath exampleSetting 5)
      \<and> fetchChainlist exampleWorld = Inr exampleChainlist
      \<and> find (\<lambda>item. chainId item = 5) exampleChainlist = Some \<lparr>chainId = 5, rpc = None\<rparr>
      \<and> getRpcFromChainData \<lparr>chainId = 5, rpc = None\<rparr> = None"
    by (simp add: example_ids example_fs example_fetch example_find b)
  note e = rpc_endpoint_from_registry_entry
    [where cd = "\<lparr>chainId = 5, rpc = None\<rparr>" and env = exampleEnv and f = emptyFs
      and k = exampleSetting and w = exampleWorld,
      THEN conjunct2, THEN conjunct2, THEN conjunct2, THEN conjunct2, THEN spec, THEN spec,
      THEN mp, OF h5]
  show ?thesis
    by (intro conjI) (rule a b c d e [THEN conjunct1] e [THEN conjunct2, THEN spec, THEN spec])+
qed




text \<open>
  Claim C9, as amended. Every failure raised inside \<^verbatim>\<open>verifyAndAddPredeployment\<close> is caught
  by the orchestrator and becomes a run summary with \<^verbatim>\<open>success: false\<close> that carries the
  error's comment or message. The one exception that leaves the orchestrator is the one
  thrown while the summary file is written in the \<^verbatim>\<open>finally\<close> block: without a
  \<^verbatim>\<open>SUMMARY_FILE\<close> nothing escapes, and with one the orchestrator's promise rejects with the
  error of the write, if it has one.
\<close>

theorem orchestrator_catches_pipeline_failures:
  "(\<forall>e f1. verifyAndAddPredeployment k env w f = (Inl e, f1) \<longrightarrow>
      summary (addPredeployment k env w f)
        = \<lparr>commentOutput =
             (case e of
                PredeploymentError m c \<Rightarrow> c
              | Error n m \<Rightarrow>
                  errorHeading @ ''Unexpected error adding pre-deployment.<br>Error Details: ''
                    @ errorToString e),
           success = False\<rparr>)
   \<and> (\<forall>e f1. verifyAndAddPredeployment_reg k env w f = (Inl e, f1) \<longrightarrow>
      summary (addPredeployment_reg k env w f)
        = \<lparr>commentOutput = message e, success = False\<rparr>)
   \<and> (\<not> truthy (SUMMARY_FILE env) \<longrightarrow>
        rejected (addPredeployment k env w f) = None
        \<and> rejected (addPredeployment_reg k env w f) = None)
   \<and> (\<forall>p. SUMMARY_FILE env = Some p \<and> p \<noteq> [] \<longrightarrow>
        rejected (addPredeployment k env w f) = writeError w p
        \<and> rejected (addPredeployment_reg k env w f) = writeError w p)"
proof (intro conjI allI impI)
  fix e f1
  assume "verifyAndAddPredeployment k env w f = (Inl e, f1)"
  then show "summary (addPredeployment k env w f)
        = \<lparr>commentOutput =
             (case e of
                PredeploymentError m c \<Rightarrow> c
              | Error n m \<Rightarrow>
                  errorHeading @ ''Unexpected error adding pre-deployment.<br>Error Details: ''
                    @ errorToString e),
           success = False\<rparr>"
    by (simp add: addPredeployment_def finallyBlock_summary)
next
  fix e f1
  assume "verifyAndAddPredeployment_reg k env w f = (Inl e, f1)"
  then show "summary (addPredeployment_reg k env w f)
        = \<lparr>commentOutput = message e, success = False\<rparr>"
    by (simp add: addPredeployment_reg_def finallyBlock_summary)
next
  assume "\<not> truthy (SUMMARY_FILE env)"
  then show "rejected (addPredeployment k env w f) = None"
    and "rejected (addPredeployment_reg k env w f) = None"
    by (simp_all add: addPredeployment_rejected addPredeployment_reg_rejected truthy_def
        split: option.splits)
next
  fix p
  assume "SUMMARY_FILE env = Some p \<and> p \<noteq> []"
  then show "rejected (addPredeployment k env w f) = writeError w p"
    and "rejected (addPredeployment_reg k env w f) = writeError w p"
    by (simp_all add: addPredeployment_rejected addPredeployment_reg_rejected)
qed

theorem orchestrator_catches_pipeline_failures_witness:
  "summary (addPredeployment exampleSetting (exampleEnv\<lparr>CHAIN_ID := Some ''7''\<rparr>)
      exampleWorld emptyFs)
     = \<lparr>commentOutput = errorHeading @ ''Chain 7 is not listed in the chainlist.<br>''
          @ ''For more information on how to add a chain, please refer to the ''
          @ ''[chainlist documentation]''
          @ ''(https://github.com/DefiLlama/chainlist?tab=readme-ov-file#add-a-chain).<br>''
          @ ''Set SKIP_CHAINLIST_CHECK=true to bypass this check.'',
        success = False\<rparr>
   \<and> success (summary (addPredeployment_reg exampleSetting (exampleEnv\<lparr>CHAIN_ID := Some ''7''\<rparr>)
        exampleWorld emptyFs)) = False
   \<and> rejected (addPredeployment exampleSetting (exampleEnv\<lparr>CHAIN_ID := Some ''7''\<rparr>)
        exampleWorld emptyFs) = None
   \<and> rejected (addPredeployment_reg exampleSetting summaryEnv exampleWorld emptyFs) = None"
proof -
  note seven = orchestrator_catches_pipeline_failures
    [of exampleSetting "exampleEnv\<lparr>CHAIN_ID := Some ''7''\<rparr>" exampleWorld emptyFs]
  have a: "summary (addPredeployment exampleSetting (exampleEnv\<lparr>CHAIN_ID := Some ''7''\<rparr>)
      exampleWorld emptyFs)
     = \<lparr>commentOutput = errorHeading @ ''Chain 7 is not listed in the chainlist.<br>''
          @ ''For more information on how to add a chain, please refer to the ''
          @ ''[chainlist documentation]''
          @ ''(https://github.com/DefiLlama/chainlist?tab=readme-ov-file#add-a-chain).<br>''
          @ ''Set SKIP_CHAINLIST_CHECK=true to bypass this check.'',
        success = False\<rparr>"
    using seven [THEN conjunct1, THEN spec, THEN spec, THEN mp, OF example_unlisted(1)]
    by (simp add: chainNotListed_def example_toString)
  have b: "success (summary (addPredeployment_reg exampleSetting
      (exampleEnv\<lparr>CHAIN_ID := Some ''7''\<rparr>) exampleWorld emptyFs)) = False"
    using seven [THEN conjunct2, THEN conjunct1, THEN spec, THEN spec, THEN mp,
        OF example_unlisted(2)]
    by simp
  have nofile: "\<not> truthy (SUMMARY_FILE (exampleEnv\<lparr>CHAIN_ID := Some ''7''\<rparr>))"
    by (simp add: truthy_def example_env)
  note c = seven [THEN conjunct2, THEN conjunct2, THEN conjunct1, THEN mp, OF nofile,
      THEN conjunct1]
  have sf: "SUMMARY_FILE summaryEnv = Some ''/nonexistent/summary.json''
      \<and> ''/nonexistent/summary.json'' \<noteq> []"
    by (simp add: summaryEnv_def)
  have d: "rejected (addPredeployment_reg exampleSetting summaryEnv exampleWorld emptyFs) = None"
    using orchestrator_catches_pipeline_failures
      [of exampleSetting summaryEnv exampleWorld emptyFs, THEN conjunct2, THEN conjunct2,
        THEN conjunct2, THEN spec, THEN mp, OF sf, THEN conjunct2]
    by (simp add: example_io)
  show ?thesis
    by (intro conjI) (rule a b c d)+
qed

text \<open>
  The claim as stated fails: the summary file is in a directory that does not exist, the
  write in the \<^verbatim>\<open>finally\<close> block throws, and the exception leaves \<^verbatim>\<open>addPredeployment\<close>, in a
  run whose pipeline failed as in one whose pipeline succeeded.
\<close>

theorem orchestrator_lets_summary_failure_escape_counterexample:
  "SUMMARY_FILE summaryEnv = Some ''/nonexistent/summary.json''
   \<and> writeError summaryFailsWorld ''/nonexistent/summary.json'' = Some noSuchDirectory
   \<and> rejected (addPredeployment exampleSetting summaryEnv summaryFailsWorld emptyFs)
       = Some noSuchDirectory
   \<and> rejected (addPredeployment_reg exampleSetting summaryEnv summaryFailsWorld emptyFs)
       = Some noSuchDirectory
   \<and> rejected (addPredeployment exampleSetting (summaryEnv\<lparr>CHAIN_ID := Some ''abc''\<rparr>)
        summaryFailsWorld emptyFs) = Some noSuchDirectory
   \<and> rejected (addPredeployment_reg exampleSetting (summaryEnv\<lparr>CHAIN_ID := Some ''abc''\<rparr>)
        summaryFailsWorld emptyFs) = Some noSuchDirectory"
  by (simp add: addPredeployment_rejected addPredeployment_reg_rejected summaryEnv_def
      summaryFailsWorld_def)

text \<open>
  Claim C10. In the version with a registry bypass the registry step is skipped exactly
  when \<^verbatim>\<open>SKIP_CHAINLIST_CHECK\<close> is the string \<^verbatim>\<open>true\<close>: then the registry is not fetched, and a
  run that has passed the earlier steps goes on to write the artifact. For every other
  value, and when the variable is unset, the check is enforced: a run for an identifier
  that the fetched registry does not list fails and creates no file, with the "not
  listed" cause when the earlier steps have passed.
\<close>

theorem registry_check_skipped_iff_flag_true:
  "(SKIP_CHAINLIST_CHECK env = Some ''true'' \<longrightarrow>
      (\<forall>x. verifyAndAddPredeployment k env (w\<lparr>fetch := x\<rparr>) f
             = verifyAndAddPredeployment k env w f)
      \<and> (\<forall>n. validateChainId env = Inr n \<and> \<not> existsSync f (artifactPath k n)
             \<and> (\<forall>url. RPC env = Some url \<and> url \<noteq> [] \<longrightarrow>
                   verifyPredeployment k w url n = Inr ()) \<longrightarrow>
           verifyAndAddPredeployment k env w f = writeArtifact k w n f))
   \<and> (SKIP_CHAINLIST_CHECK env \<noteq> Some ''true'' \<longrightarrow>
      (\<forall>n cl. validateChainId env = Inr n \<and> fetchChainlist w = Inr cl
             \<and> (\<forall>item \<in> set cl. chainId item \<noteq> n) \<longrightarrow>
           fst (verifyAndAddPredeployment k env w f) \<noteq> Inr ()
           \<and> files (snd (verifyAndAddPredeployment k env w f)) = files f
           \<and> (\<not> existsSync f (artifactPath k n)
                \<and> (\<forall>url. RPC env = Some url \<and> url \<noteq> [] \<longrightarrow>
                      verifyPredeployment k w url n = Inr ()) \<longrightarrow>
              verifyAndAddPredeployment k env w f = (Inl (chainNotListed n), f))))"
proof (intro conjI allI impI)
  fix x
  assume skip: "SKIP_CHAINLIST_CHECK env = Some ''true''"
  have rpcs: "verifyWithEnvRpc k env (w\<lparr>fetch := x\<rparr>) n = verifyWithEnvRpc k env w n" for n
    by (simp add: verifyWithEnvRpc_def verifyPredeployment_def split: option.splits sum.splits)
  have chk: "checkChainlist env w' n = Inr ()" for w' n
    using skip by (simp add: checkChainlist_def)
  have wr: "writeArtifact k (w\<lparr>fetch := x\<rparr>) n f = writeArtifact k w n f" for n
    by (simp add: writeArtifact_result)
  show "verifyAndAddPredeployment k env (w\<lparr>fetch := x\<rparr>) f
      = verifyAndAddPredeployment k env w f"
    by (simp add: verifyAndAddPredeployment_def rpcs chk wr split: sum.splits)
next
  fix n
  assume skip: "SKIP_CHAINLIST_CHECK env = Some ''true''"
    and a: "validateChainId env = Inr n \<and> \<not> existsSync f (artifactPath k n)
      \<and> (\<forall>url. RPC env = Some url \<and> url \<noteq> [] \<longrightarrow> verifyPredeployment k w url n = Inr ())"
  have "verifyWithEnvRpc k env w n = Inr ()"
    using a by (simp add: verifyWithEnvRpc_ok_iff)
  moreover have "checkChainlist env w n = Inr ()"
    using skip by (simp add: checkChainlist_def)
  ultimately show "verifyAndAddPredeployment k env w f = writeArtifact k w n f"
    using a by (simp add: verifyAndAddPredeployment_steps)
next
  fix n cl
  assume enforced: "SKIP_CHAINLIST_CHECK env \<noteq> Some ''true''"
    and a: "validateChainId env = Inr n \<and> fetchChainlist w = Inr cl
      \<and> (\<forall>item \<in> set cl. chainId item \<noteq> n)"
  have chk: "checkChainlist env w n = Inl (chainNotListed n)"
    using enforced a by (simp add: checkChainlist_def Let_def list_ex_iff)
  show bad: "fst (verifyAndAddPredeployment k env w f) \<noteq> Inr ()"
    using a chk by (auto simp: verifyAndAddPredeployment_ok_iff)
  show "files (snd (verifyAndAddPredeployment k env w f)) = files f"
    using bad a by (simp add: verifyAndAddPredeployment_files)
  show "verifyAndAddPredeployment k env w f = (Inl (chainNotListed n), f)"
    if "\<not> existsSync f (artifactPath k n)
      \<and> (\<forall>url. RPC env = Some url \<and> url \<noteq> [] \<longrightarrow> verifyPredeployment k w url n = Inr ())"
  proof -
    have "verifyWithEnvRpc k env w n = Inr ()"
      using that by (simp add: verifyWithEnvRpc_ok_iff)
    then show ?thesis
      using a that chk by (simp add: verifyAndAddPredeployment_steps)
  qed
qed

theorem registry_check_skipped_iff_flag_true_witness:
  "fst (verifyAndAddPredeployment exampleSetting
     (exampleEnv\<lparr>CHAIN_ID := Some ''7'', SKIP_CHAINLIST_CHECK := Some ''true''\<rparr>)
     exampleWorld emptyFs) = Inr ()
   \<and> verifyAndAddPredeployment exampleSetting
     (exampleEnv\<lparr>CHAIN_ID := Some ''7'', SKIP_CHAINLIST_CHECK := Some ''true''\<rparr>)
     (exampleWorld\<lparr>fetch := Inl (Error ''TypeError'' ''fetch failed'')\<rparr>) emptyFs
     = verifyAndAddPredeployment exampleSetting
     (exampleEnv\<lparr>CHAIN_ID := Some ''7'', SKIP_CHAINLIST_CHECK := Some ''true''\<rparr>)
     exampleWorld emptyFs
   \<and> verifyAndAddPredeployment exampleSetting
     (exampleEnv\<lparr>CHAIN_ID := Some ''7'', SKIP_CHAINLIST_CHECK := Some ''TRUE''\<rparr>)
     exampleWorld emptyFs = (Inl (chainNotListed 7), emptyFs)
   \<and> verifyAndAddPredeployment exampleSetting
     (exampleEnv\<lparr>CHAIN_ID := Some ''7'', SKIP_CHAINLIST_CHECK := Some ''1''\<rparr>)
     exampleWorld emptyFs = (Inl (chainNotListed 7), emptyFs)
   \<and> verifyAndAddPredeployment exampleSetting
     (exampleEnv\<lparr>CHAIN_ID := Some ''7'', SKIP_CHAINLIST_CHECK := Some ''yes''\<rparr>)
     exampleWorld emptyFs = (Inl (chainNotListed 7), emptyFs)
   \<and> verifyAndAddPredeployment exampleSetting
     (exampleEnv\<lparr>CHAIN_ID := Some ''7'', SKIP_CHAINLIST_CHECK := None\<rparr>)
     exampleWorld emptyFs = (Inl (chainNotListed 7), emptyFs)"
proof -
  have id: "validateChainId (exampleEnv\<lparr>CHAIN_ID := Some ''7'', SKIP_CHAINLIST_CHECK := v\<rparr>)
      = Inr 7" for v
    by (simp add: validateChainId_def example_parseInt)
  have unlisted: "\<forall>item \<in> set exampleChainlist. chainId item \<noteq> 7"
    by (simp add: exampleChainlist_def)
  have pre: "\<not> existsSync emptyFs (artifactPath exampleSetting 7)
      \<and> (\<forall>url. RPC (exampleEnv\<lparr>CHAIN_ID := Some ''7'', SKIP_CHAINLIST_CHECK := v\<rparr>) = Some url
              \<and> url \<noteq> [] \<longrightarrow>
            verifyPredeployment exampleSetting exampleWorld url 7 = Inr ())" for v
    by (simp add: example_fs example_env)
  have enforced: "verifyAndAddPredeployment exampleSetting
      (exampleEnv\<lparr>CHAIN_ID := Some ''7'', SKIP_CHAINLIST_CHECK := v\<rparr>) exampleWorld emptyFs
      = (Inl (chainNotListed 7), emptyFs)" if "v \<noteq> Some ''true''" for v
  proof -
    have flag: "SKIP_CHAINLIST_CHECK
        (exampleEnv\<lparr>CHAIN_ID := Some ''7'', SKIP_CHAINLIST_CHECK := v\<rparr>) \<noteq> Some ''true''"
      using that by simp
    have h: "validateChainId (exampleEnv\<lparr>CHAIN_ID := Some ''7'', SKIP_CHAINLIST_CHECK := v\<rparr>)
        = Inr 7 \<and> fetchChainlist exampleWorld = Inr exampleChainlist
        \<and> (\<forall>item \<in> set exampleChainlist. chainId item \<noteq> 7)"
      using id unlisted example_fetch by simp
    show ?thesis
      using registry_check_skipped_iff_flag_true
        [where env = "exampleEnv\<lparr>CHAIN_ID := Some ''7'', SKIP_CHAINLIST_CHECK := v\<rparr>"
          and k = exampleSetting and w = exampleWorld and f = emptyFs,
          THEN conjunct2, THEN mp, OF flag, THEN spec, THEN spec, THEN mp, OF h,
          THEN conjunct2, THEN conjunct2, THEN mp, OF pre] .
  qed
  let ?skip = "exampleEnv\<lparr>CHAIN_ID := Some ''7'', SKIP_CHAINLIST_CHECK := Some ''true''\<rparr>"
  have flag: "SKIP_CHAINLIST_CHECK ?skip = Some ''true''" by simp
  note skipped = registry_check_skipped_iff_flag_true
    [where env = ?skip and k = exampleSetting and w = exampleWorld and f = emptyFs,
      THEN conjunct1, THEN mp, OF flag]
  have h: "validateChainId ?skip = Inr 7 \<and> \<not> existsSync emptyFs (artifactPath exampleSetting 7)
      \<and> (\<forall>url. RPC ?skip = Some url \<and> url \<noteq> [] \<longrightarrow>
            verifyPredeployment exampleSetting exampleWorld url 7 = Inr ())"
    using id pre by simp
  have "verifyAndAddPredeployment exampleSetting ?skip exampleWorld emptyFs
      = writeArtifact exampleSetting exampleWorld 7 emptyFs"
    using skipped [THEN conjunct2, THEN spec, THEN mp, OF h] .
  then have a: "fst (verifyAndAddPredeployment exampleSetting ?skip exampleWorld emptyFs)
      = Inr ()"
    by (simp add: writeArtifact_ok_iff example_io)
  note b = skipped [THEN conjunct1, THEN spec,
      of "Inl (Error ''TypeError'' ''fetch failed'')"]
  have c: "verifyAndAddPredeployment exampleSetting
      (exampleEnv\<lparr>CHAIN_ID := Some ''7'', SKIP_CHAINLIST_CHECK := Some ''TRUE''\<rparr>)
      exampleWorld emptyFs = (Inl (chainNotListed 7), emptyFs)"
    by (rule enforced) simp
  have d: "verifyAndAddPredeployment exampleSetting
      (exampleEnv\<lparr>CHAIN_ID := Some ''7'', SKIP_CHAINLIST_CHECK := Some ''1''\<rparr>)
      exampleWorld emptyFs = (Inl (chainNotListed 7), emptyFs)"
    by (rule enforced) simp
  have e: "verifyAndAddPredeployment exampleSetting
      (exampleEnv\<lparr>CHAIN_ID := Some ''7'', SKIP_CHAINLIST_CHECK := Some ''yes''\<rparr>)
      exampleWorld emptyFs = (Inl (chainNotListed 7), emptyFs)"
    by (rule enforced) simp
  have g: "verifyAndAddPredeployment exampleSetting
      (exampleEnv\<lparr>CHAIN_ID := Some ''7'', SKIP_CHAINLIST_CHECK := None\<rparr>)
      exampleWorld emptyFs = (Inl (chainNotListed 7), emptyFs)"
    by (rule enforced) simp
  show ?thesis
    by (intro conjI) (rule a b c d e g)+
qed

end
